theory Spec2Isabelle
  imports Complex_Main
begin

section \<open>Teach and repeat: the repeat node\<close>

text \<open>
  A shallow embedding of \<^verbatim>\<open>scripts/repeat.py\<close>: the per-frame pipeline of the
  class \<^verbatim>\<open>RepeatNode\<close> (\<^verbatim>\<open>ImageMatching\<close>, \<^verbatim>\<open>Controller\<close>,
  \<^verbatim>\<open>RelativeTFBetweenFrames\<close>). Python integers are \<^typ>\<open>int\<close>, numpy and Python
  floats are \<^typ>\<open>real\<close> (exact arithmetic, no rounding and no NaN), the fields of
  \<^verbatim>\<open>self\<close> that the pipeline mutates are a record passed in and returned.
\<close>

subsection \<open>Slices\<close>

text \<open>
  A Python slice \<^verbatim>\<open>xs[a:b]\<close> never raises: a negative bound counts from the end,
  and both bounds are clamped to the length.
\<close>

definition slice_bound :: "int \<Rightarrow> nat \<Rightarrow> nat" where
  "slice_bound i n = (if i < 0 then nat (max (i + int n) 0) else min (nat i) n)"

definition py_slice :: "'a list \<Rightarrow> int \<Rightarrow> int \<Rightarrow> 'a list" where
  "py_slice xs a b =
     (let n = length xs; s = slice_bound a n; e = slice_bound b n
      in take (e - s) (drop s xs))"

subsection \<open>Planar transforms\<close>

text \<open>
  The module \<^verbatim>\<open>transform_tools\<close> is imported by the node but is not part of the
  sources at hand. A transform is the homogeneous matrix of a planar motion; of the
  4x4 array only the planar block is kept, the rows \<open>(r00, r01, tx)\<close> and
  \<open>(r10, r11, ty)\<close>, the remaining rows and columns being those of the identity.
\<close>

record trans =
  r00 :: real
  r01 :: real
  tx :: real
  r10 :: real
  r11 :: real
  ty :: real

text \<open>
  A pose message restricted to the plane. The node only ever builds the orientation
  with \<^verbatim>\<open>quaternion_from_euler(0, 0, yaw)\<close>, or as the unit quaternion
  \<^verbatim>\<open>w = 1\<close>, which is yaw 0; the orientation is kept as that yaw.
\<close>

record pose =
  position_x :: real
  position_y :: real
  orientation_yaw :: real

definition pose_msg_to_trans :: "pose \<Rightarrow> trans" where
  \<comment> \<open>Modelled from the spec: \<^verbatim>\<open>transform_tools.pose_msg_to_trans\<close> is missing; the
      transform of a pose is the rotation by its yaw and the translation by its position.\<close>
  "pose_msg_to_trans p =
     \<lparr>r00 = cos (orientation_yaw p), r01 = - sin (orientation_yaw p), tx = position_x p,
      r10 = sin (orientation_yaw p), r11 = cos (orientation_yaw p), ty = position_y p\<rparr>"

definition append_trans :: "trans \<Rightarrow> trans \<Rightarrow> trans" where
  \<comment> \<open>Modelled from the spec: \<^verbatim>\<open>transform_tools.append_trans\<close> is missing; \<open>compose\<close> is
      the matrix product.\<close>
  "append_trans a b =
     \<lparr>r00 = r00 a * r00 b + r01 a * r10 b,
      r01 = r00 a * r01 b + r01 a * r11 b,
      tx = r00 a * tx b + r01 a * ty b + tx a,
      r10 = r10 a * r00 b + r11 a * r10 b,
      r11 = r10 a * r01 b + r11 a * r11 b,
      ty = r10 a * tx b + r11 a * ty b + ty a\<rparr>"

definition invert_trans :: "trans \<Rightarrow> trans" where
  \<comment> \<open>Modelled from the spec: the inverse used by \<^verbatim>\<open>transform_tools.diff_trans\<close>, which is
      missing; \<open>invert\<close> of a rigid transform is the transposed rotation with the
      translation rotated back and negated.\<close>
  "invert_trans a =
     \<lparr>r00 = r00 a, r01 = r10 a, tx = - (r00 a * tx a + r10 a * ty a),
      r10 = r01 a, r11 = r11 a, ty = - (r01 a * tx a + r11 a * ty a)\<rparr>"

definition diff_trans :: "trans \<Rightarrow> trans \<Rightarrow> trans" where
  \<comment> \<open>Modelled from the spec: \<^verbatim>\<open>transform_tools.diff_trans\<close> is missing; the goal
      re-expressed relative to the corrected pose is \<open>compose (invert a) b\<close>.\<close>
  "diff_trans a b = append_trans (invert_trans a) b"

definition distance_of_trans :: "trans \<Rightarrow> real" where
  \<comment> \<open>Modelled from the spec: \<^verbatim>\<open>transform_tools.distance_of_trans\<close> is missing; \<open>rho\<close> is
      the length of the translation.\<close>
  "distance_of_trans a = sqrt ((tx a)\<^sup>2 + (ty a)\<^sup>2)"

definition arctan2 :: "real \<Rightarrow> real \<Rightarrow> real" where
  \<comment> \<open>\<^verbatim>\<open>np.arctan2(y, x)\<close>, the angle of the point \<open>(x, y)\<close> in \<open>(-pi, pi]\<close>, 0 at the origin.\<close>
  "arctan2 y x =
     (if 0 < x then arctan (y / x)
      else if x < 0 \<and> 0 \<le> y then arctan (y / x) + pi
      else if x < 0 then arctan (y / x) - pi
      else if 0 < y then pi / 2
      else if y < 0 then - (pi / 2)
      else 0)"

definition yaw_from_trans :: "trans \<Rightarrow> real" where
  \<comment> \<open>Modelled from the spec: \<^verbatim>\<open>transform_tools.yaw_from_trans\<close> is missing; \<open>beta\<close> is
      the rotation angle of the transform.\<close>
  "yaw_from_trans a = arctan2 (r10 a) (r00 a)"

subsection \<open>The teach dataset\<close>

text \<open>
  One row of \<^verbatim>\<open>dataset.txt\<close>: the frame id, the odometry relative to the previous
  frame and the pose relative to the first frame.
\<close>

record teach_frame =
  frame_id :: int
  relative_odom_x :: real
  relative_odom_y :: real
  relative_odom_yaw :: real
  relative_pose_x :: real
  relative_pose_y :: real
  relative_pose_yaw :: real

definition set_frame_ids :: "teach_frame list \<Rightarrow> teach_frame list" where
  \<comment> \<open>\<^verbatim>\<open>teach_dataset[:,0] = np.arange(0, teach_dataset.shape[0])\<close>\<close>
  "set_frame_ids rows = map (\<lambda>(i, row). row\<lparr>frame_id := int i\<rparr>) (enumerate 0 rows)"

subsection \<open>The transform between two teach frames\<close>

definition odom_pose :: "teach_frame \<Rightarrow> pose" where
  "odom_pose row =
     \<lparr>position_x = relative_odom_x row, position_y = relative_odom_y row,
      orientation_yaw = relative_odom_yaw row\<rparr>"

text \<open>
  The loop of \<^verbatim>\<open>RelativeTFBetweenFrames\<close>. The accumulator is \<open>None\<close> while the
  array \<^verbatim>\<open>relative_frame_tf\<close> is the empty array of size 0.
\<close>

fun chain_rows :: "teach_frame list \<Rightarrow> trans option \<Rightarrow> trans option" where
  "chain_rows [] relative_frame_tf = relative_frame_tf"
| "chain_rows (row # rows) relative_frame_tf =
     (let frame_tf = pose_msg_to_trans (odom_pose row)
      in chain_rows rows
           (case relative_frame_tf of
              None \<Rightarrow> Some frame_tf
            | Some rel \<Rightarrow> Some (append_trans rel frame_tf)))"

definition identity_pose :: pose where
  "identity_pose = \<lparr>position_x = 0, position_y = 0, orientation_yaw = 0\<rparr>"

definition RelativeTFBetweenFrames :: "teach_frame list \<Rightarrow> int \<Rightarrow> int \<Rightarrow> trans option" where
  "RelativeTFBetweenFrames teach_dataset current_frame_id goal_frame_id =
     (if current_frame_id = goal_frame_id then Some (pose_msg_to_trans identity_pose)
      else chain_rows (py_slice teach_dataset (current_frame_id + 1) (goal_frame_id + 1)) None)"

subsection \<open>Parameters and state of the node\<close>

text \<open>
  The constants read from the parameter server in \<^verbatim>\<open>__init__\<close>. The image
  comparison size is \<open>(width, height)\<close>.
\<close>

record config =
  X_OFFSET_SCALE_FACTOR :: real
  Y_OFFSET_SCALE_FACTOR :: real
  YAW_OFFSET_SCALE_FACTOR :: real
  FRAME_SEARCH_WINDOW :: int
  IMAGE_COMPARISON_SIZE :: "int \<times> int"
  target_frame_lookahead :: int
  RHO_GAIN :: real
  ALPHA_GAIN :: real
  BETA_GAIN :: real
  WHEEL_BASE :: real
  MAX_FORWARD_VELOCITY :: real
  MAX_STEERING_ANGLE :: real
  MIN_STEERING_ANGLE :: real

definition TARGET_FRAME_LOOKAHEAD :: "config \<Rightarrow> int" where
  \<comment> \<open>\<^verbatim>\<open>max(rospy.get_param('~target_frame_lookahead', 2), 1)\<close>\<close>
  "TARGET_FRAME_LOOKAHEAD cfg = max (target_frame_lookahead cfg) 1"

text \<open>
  The fields of \<^verbatim>\<open>self\<close> that the pipeline writes: the matched teach frame, the
  patch centre, the speed and steering angle of the command message
  \<^verbatim>\<open>self.ackermann_cmd\<close>, which is created once and reused for every publication,
  and the commands published so far, oldest first.
\<close>

record node_state =
  current_matched_teach_frame_id :: int
  patch_center_location :: "real \<times> real"
  drive_speed :: real
  drive_steering_angle :: real
  published :: "(real \<times> real) list"

definition init_state :: node_state where
  \<comment> \<open>\<^verbatim>\<open>__init__\<close>: the cursor is 0 and the fresh message has every field 0.\<close>
  "init_state =
     \<lparr>current_matched_teach_frame_id = 0, patch_center_location = (0, 0),
      drive_speed = 0, drive_steering_angle = 0, published = []\<rparr>"

definition publish :: "node_state \<Rightarrow> node_state" where
  \<comment> \<open>\<^verbatim>\<open>self.ackermann_cmd_publisher.publish(self.ackermann_cmd)\<close>\<close>
  "publish st = st\<lparr>published := published st @ [(drive_speed st, drive_steering_angle st)]\<rparr>"

subsection \<open>Image matching\<close>

text \<open>
  What one incoming image yields. OpenCV is not modelled: \<open>match_template k\<close> is the
  pair \<open>(max_val, max_location)\<close> that \<^verbatim>\<open>cv.minMaxLoc(cv.matchTemplate(...))\<close> returns
  for the teach image \<open>k\<close> and the centre patch of this image, and \<open>patch_shape\<close> is
  the shape \<open>(rows, columns)\<close> of that patch as \<^verbatim>\<open>ImageCropCenter\<close> cut it.
\<close>

record live_frame =
  match_template :: "int \<Rightarrow> real \<times> (int \<times> int)"
  patch_shape :: "int \<times> int"

datatype error = UnboundLocalError

text \<open>
  The local variables of the matching loop. \<open>max_location\<close> is assigned in the loop
  body only, so it is unbound (\<open>None\<close>) until the first iteration.
\<close>

record scan_vars =
  best_score :: "real option"
  best_max_location :: "(int \<times> int) option"
  max_location :: "(int \<times> int) option"
  matched_teach_frame_id :: int

fun improves :: "real option \<Rightarrow> real \<Rightarrow> bool" where
  \<comment> \<open>\<^verbatim>\<open>best_score == None or best_score < max_val\<close>\<close>
  "improves None max_val = True"
| "improves (Some best) max_val = (best < max_val)"

definition scan_step :: "(int \<Rightarrow> real \<times> (int \<times> int)) \<Rightarrow> int \<Rightarrow> scan_vars \<Rightarrow> scan_vars" where
  \<comment> \<open>the body of the loop, for the teach frame \<open>teach_frame_id\<close>\<close>
  "scan_step mt teach_frame_id v =
     (let (max_val, max_loc) = mt teach_frame_id;
          v1 = v\<lparr>max_location := Some max_loc\<rparr>
      in if improves (best_score v1) max_val
         then v1\<lparr>best_score := Some max_val, best_max_location := Some max_loc,
                 matched_teach_frame_id := teach_frame_id\<rparr>
         else v1)"

fun scan :: "(int \<Rightarrow> real \<times> (int \<times> int)) \<Rightarrow> int list \<Rightarrow> scan_vars \<Rightarrow> scan_vars" where
  "scan mt [] v = v"
| "scan mt (teach_frame_id # ids) v = scan mt ids (scan_step mt teach_frame_id v)"

definition scan_init :: "int \<Rightarrow> scan_vars" where
  \<comment> \<open>the variables on entry of the loop; the matched frame is the field of \<^verbatim>\<open>self\<close>\<close>
  "scan_init cursor =
     \<lparr>best_score = None, best_max_location = None, max_location = None,
      matched_teach_frame_id = cursor\<rparr>"

definition search_window :: "config \<Rightarrow> teach_frame list \<Rightarrow> int \<Rightarrow> int list" where
  \<comment> \<open>\<^verbatim>\<open>self.teach_dataset[start_idx:end_idx, 0]\<close>\<close>
  "search_window cfg teach_dataset cursor =
     (let start_idx = max (cursor - FRAME_SEARCH_WINDOW cfg) 0;
          end_idx = min (cursor + FRAME_SEARCH_WINDOW cfg + 1) (int (length teach_dataset))
      in map frame_id (py_slice teach_dataset start_idx end_idx))"

definition patch_center :: "int \<times> int \<Rightarrow> int \<times> int \<Rightarrow> real \<times> real" where
  \<comment> \<open>\<^verbatim>\<open>np.array([max_location[0], max_location[1]]) + np.array([shape[1]/2.0, shape[0]/2.0])\<close>\<close>
  "patch_center loc shape =
     (real_of_int (fst loc) + real_of_int (snd shape) / 2,
      real_of_int (snd loc) + real_of_int (fst shape) / 2)"

definition estimate_offsets :: "config \<Rightarrow> real \<times> real \<Rightarrow> real \<times> real \<times> real" where
  \<comment> \<open>\<^verbatim>\<open>img_proc.shape[1]\<close> is the comparison width; \<^verbatim>\<open>//\<close> is floor division.\<close>
  "estimate_offsets cfg center =
     (let y_offset = real_of_int (fst (IMAGE_COMPARISON_SIZE cfg) div 2) - fst center
      in (X_OFFSET_SCALE_FACTOR cfg * 0, Y_OFFSET_SCALE_FACTOR cfg * y_offset,
          YAW_OFFSET_SCALE_FACTOR cfg * 0))"

definition ImageMatching ::
  "config \<Rightarrow> teach_frame list \<Rightarrow> live_frame \<Rightarrow> node_state
     \<Rightarrow> error + node_state \<times> int \<times> (real \<times> real \<times> real)" where
  "ImageMatching cfg teach_dataset img st =
     (let v = scan (match_template img)
                (search_window cfg teach_dataset (current_matched_teach_frame_id st))
                (scan_init (current_matched_teach_frame_id st))
      in case max_location v of
           None \<Rightarrow> Inl UnboundLocalError
         | Some loc \<Rightarrow>
             (let center = patch_center loc (patch_shape img);
                  offsets = estimate_offsets cfg center;
                  st' = st\<lparr>current_matched_teach_frame_id := matched_teach_frame_id v,
                           patch_center_location := center\<rparr>
              in Inr (st', current_matched_teach_frame_id st', offsets)))"

subsection \<open>Controller\<close>

definition control_law :: "config \<Rightarrow> real \<Rightarrow> real \<Rightarrow> real \<Rightarrow> real \<times> real" where
  "control_law cfg rho alpha beta =
     (let lin_vel = min (max (RHO_GAIN cfg * rho) 0) (MAX_FORWARD_VELOCITY cfg);
          ang_vel = ALPHA_GAIN cfg * alpha + BETA_GAIN cfg * beta;
          steering_angle =
            (if lin_vel \<noteq> 0 then arctan (ang_vel * WHEEL_BASE cfg / lin_vel) else 0)
      in (lin_vel, min (max steering_angle (MIN_STEERING_ANGLE cfg)) (MAX_STEERING_ANGLE cfg)))"

definition offset_goal :: "real \<times> real \<times> real \<Rightarrow> trans \<Rightarrow> trans" where
  \<comment> \<open>the goal transform seen from the pose shifted by the offsets\<close>
  "offset_goal offsets goal =
     diff_trans
       (pose_msg_to_trans
          \<lparr>position_x = fst offsets, position_y = fst (snd offsets),
           orientation_yaw = snd (snd offsets)\<rparr>)
       goal"

definition Controller ::
  "config \<Rightarrow> teach_frame list \<Rightarrow> int \<Rightarrow> real \<times> real \<times> real \<Rightarrow> node_state \<Rightarrow> node_state" where
  "Controller cfg teach_dataset match_teach_id offsets st =
     (case RelativeTFBetweenFrames teach_dataset match_teach_id
             (match_teach_id + TARGET_FRAME_LOOKAHEAD cfg) of
        None \<Rightarrow> publish (st\<lparr>drive_speed := 0\<rparr>)
      | Some goal \<Rightarrow>
          (let goal_pos_relative_trans = offset_goal offsets goal;
               rho = distance_of_trans goal_pos_relative_trans;
               alpha = arctan2 (ty goal_pos_relative_trans) (tx goal_pos_relative_trans);
               beta = yaw_from_trans goal_pos_relative_trans;
               (lin_vel, steering_angle) = control_law cfg rho alpha beta
           in publish (st\<lparr>drive_speed := lin_vel, drive_steering_angle := steering_angle\<rparr>)))"

subsection \<open>One processed frame, and a run of frames\<close>

definition Image_Callback ::
  "config \<Rightarrow> teach_frame list \<Rightarrow> live_frame \<Rightarrow> node_state \<Rightarrow> error + node_state" where
  \<comment> \<open>the part of the callback after the odometry, decimation and decoding checks\<close>
  "Image_Callback cfg teach_dataset img st =
     (case ImageMatching cfg teach_dataset img st of
        Inl e \<Rightarrow> Inl e
      | Inr (st', match_teach_id, lateral_offset) \<Rightarrow>
          Inr (Controller cfg teach_dataset match_teach_id lateral_offset st'))"

fun run :: "config \<Rightarrow> teach_frame list \<Rightarrow> live_frame list \<Rightarrow> node_state \<Rightarrow> error + node_state" where
  "run cfg teach_dataset [] st = Inr st"
| "run cfg teach_dataset (img # imgs) st =
     (case Image_Callback cfg teach_dataset img st of
        Inl e \<Rightarrow> Inl e
      | Inr st' \<Rightarrow> run cfg teach_dataset imgs st')"

subsection \<open>What the matching loop maintains\<close>

text \<open>
  After the frames of a set \<open>S\<close> have been scanned, the matched frame is a frame of
  \<open>S\<close> whose score is the greatest of \<open>S\<close>, the lowest id among those with that
  score, and the running best score and location are the ones of that frame.
\<close>

definition is_best :: "(int \<Rightarrow> real \<times> (int \<times> int)) \<Rightarrow> int set \<Rightarrow> scan_vars \<Rightarrow> bool" where
  "is_best mt S v \<longleftrightarrow>
     matched_teach_frame_id v \<in> S
     \<and> best_score v = Some (fst (mt (matched_teach_frame_id v)))
     \<and> best_max_location v = Some (snd (mt (matched_teach_frame_id v)))
     \<and> (\<forall>j\<in>S. fst (mt j) \<le> fst (mt (matched_teach_frame_id v)))
     \<and> (\<forall>j\<in>S. fst (mt j) = fst (mt (matched_teach_frame_id v))
              \<longrightarrow> matched_teach_frame_id v \<le> j)"

subsection \<open>Example inputs\<close>

text \<open>
  A teach path of five frames on a straight line, one metre apart, and the default
  parameters of \<^verbatim>\<open>__init__\<close>.
\<close>

definition straight_row :: "int \<Rightarrow> teach_frame" where
  "straight_row i =
     \<lparr>frame_id = i, relative_odom_x = 1, relative_odom_y = 0, relative_odom_yaw = 0,
      relative_pose_x = real_of_int i, relative_pose_y = 0, relative_pose_yaw = 0\<rparr>"

definition straight_path :: "teach_frame list" where
  "straight_path = [straight_row 0, straight_row 1, straight_row 2, straight_row 3, straight_row 4]"

definition default_config :: config where
  "default_config =
     \<lparr>X_OFFSET_SCALE_FACTOR = 0, Y_OFFSET_SCALE_FACTOR = 2 / 100, YAW_OFFSET_SCALE_FACTOR = 0,
      FRAME_SEARCH_WINDOW = 3, IMAGE_COMPARISON_SIZE = (64, 48), target_frame_lookahead = 2,
      RHO_GAIN = 6 / 10, ALPHA_GAIN = 7 / 10, BETA_GAIN = 3 / 10, WHEEL_BASE = 312 / 1000,
      MAX_FORWARD_VELOCITY = 1 / 2, MAX_STEERING_ANGLE = pi / 4, MIN_STEERING_ANGLE = - (pi / 4)\<rparr>"

text \<open>
  Two incoming images, with a centre patch of 28 rows and 38 columns. For
  \<open>tie_frame\<close> every teach frame scores 1, with the patch centred. For
  \<open>frame_at k\<close> the teach frame \<open>k\<close> scores best, with the patch found at column 2,
  and every other teach frame scores less, with the patch found at column 10.
\<close>

definition tie_frame :: live_frame where
  "tie_frame = \<lparr>match_template = (\<lambda>j. (1, (13, 10))), patch_shape = (28, 38)\<rparr>"

definition frame_at :: "int \<Rightarrow> live_frame" where
  "frame_at k =
     \<lparr>match_template = (\<lambda>j. if j = k then (9 / 10, (2, 10)) else (1 / 2, (10, 10))),
      patch_shape = (28, 38)\<rparr>"

text \<open>
  A teach path of three frames recorded without moving, and parameter sets that differ
  from the default in one limit each: an odd comparison width, a negative maximum
  speed, and steering limits on one side of 0.
\<close>

definition still_row :: "int \<Rightarrow> teach_frame" where
  "still_row i =
     \<lparr>frame_id = i, relative_odom_x = 0, relative_odom_y = 0, relative_odom_yaw = 0,
      relative_pose_x = 0, relative_pose_y = 0, relative_pose_yaw = 0\<rparr>"

definition still_path :: "teach_frame list" where
  "still_path = [still_row 0, still_row 1, still_row 2]"

definition odd_width_config :: config where
  "odd_width_config = default_config\<lparr>IMAGE_COMPARISON_SIZE := (65, 48)\<rparr>"

definition negative_speed_config :: config where
  "negative_speed_config = default_config\<lparr>MAX_FORWARD_VELOCITY := - (1 / 2)\<rparr>"

definition left_only_config :: config where
  "left_only_config =
     default_config\<lparr>MIN_STEERING_ANGLE := 1 / 10, MAX_STEERING_ANGLE := 1 / 2\<rparr>"

definition right_only_config :: config where
  "right_only_config =
     default_config\<lparr>MIN_STEERING_ANGLE := - (1 / 2), MAX_STEERING_ANGLE := - (1 / 10)\<rparr>"

text \<open>
  The command of the default controller for a goal one metre ahead and 0.22 m to the
  right, with no heading change.
\<close>

definition turn_command :: "real \<times> real" where
  "turn_command =
     control_law default_config (sqrt (1\<^sup>2 + (- (22 / 100))\<^sup>2)) (arctan (- (22 / 100) / 1)) 0"

section \<open>Transform chains and slices\<close>

lemma append_trans_assoc:
  "append_trans (append_trans a b) c = append_trans a (append_trans b c)"
  by (simp add: append_trans_def algebra_simps)

lemma chain_rows_Some:
  "chain_rows rows (Some a) =
     (case chain_rows rows None of None \<Rightarrow> Some a | Some b \<Rightarrow> Some (append_trans a b))"
proof (induction rows arbitrary: a)
  case Nil
  show ?case by simp
next
  case (Cons row rows)
  let ?f = "pose_msg_to_trans (odom_pose row)"
  have "chain_rows (row # rows) (Some a) = chain_rows rows (Some (append_trans a ?f))"
    by (simp add: Let_def)
  also have "\<dots> = (case chain_rows rows None of None \<Rightarrow> Some (append_trans a ?f)
                    | Some b \<Rightarrow> Some (append_trans (append_trans a ?f) b))"
    by (rule Cons.IH)
  finally have lhs: "chain_rows (row # rows) (Some a) =
      (case chain_rows rows None of None \<Rightarrow> Some (append_trans a ?f)
       | Some b \<Rightarrow> Some (append_trans a (append_trans ?f b)))"
    by (simp add: append_trans_assoc split: option.splits)
  have rhs: "chain_rows (row # rows) None =
      (case chain_rows rows None of None \<Rightarrow> Some ?f | Some b \<Rightarrow> Some (append_trans ?f b))"
    using Cons.IH [of ?f] by (simp add: Let_def)
  show ?case unfolding lhs rhs by (simp split: option.splits)
qed

lemma chain_rows_append:
  "chain_rows (xs @ ys) acc = chain_rows ys (chain_rows xs acc)"
  by (induction xs arbitrary: acc) (simp_all add: Let_def)

lemma chain_rows_None_iff: "chain_rows rows None = None \<longleftrightarrow> rows = []"
proof (cases rows)
  case Nil
  then show ?thesis by simp
next
  case (Cons row rest)
  then show ?thesis by (simp add: chain_rows_Some Let_def split: option.splits)
qed

lemma slice_bound_nonneg: "0 \<le> i \<Longrightarrow> slice_bound i n = min (nat i) n"
  by (simp add: slice_bound_def)

lemma take_drop_split:
  "s \<le> m \<Longrightarrow> m \<le> e \<Longrightarrow>
   take (e - s) (drop s xs) = take (m - s) (drop s xs) @ take (e - m) (drop m xs)"
proof -
  assume a: "s \<le> m" "m \<le> e"
  then have "e - s = (m - s) + (e - m)" by simp
  then have "take (e - s) (drop s xs) = take (m - s) (drop s xs) @ take (e - m) (drop (m - s) (drop s xs))"
    by (simp only: take_add)
  with a show ?thesis by simp
qed

lemma py_slice_split:
  assumes "0 \<le> a" "a \<le> m" "m \<le> b"
  shows "py_slice xs a b = py_slice xs a m @ py_slice xs m b"
proof -
  let ?n = "length xs"
  have le: "min (nat a) ?n \<le> min (nat m) ?n" "min (nat m) ?n \<le> min (nat b) ?n"
    using assms by auto
  show ?thesis
    using assms take_drop_split [OF le, of xs]
    by (simp add: py_slice_def slice_bound_nonneg Let_def)
qed

lemma py_slice_Nil_iff:
  assumes "0 \<le> a" "0 \<le> b"
  shows "py_slice xs a b = [] \<longleftrightarrow> b \<le> a \<or> int (length xs) \<le> a"
  using assms by (auto simp: py_slice_def slice_bound_def Let_def)

lemma py_slice_clamp:
  assumes "int (length xs) \<le> b"
  shows "py_slice xs a b = py_slice xs a (int (length xs))"
  using assms by (auto simp: py_slice_def slice_bound_def Let_def)

section \<open>The transform between two teach frames\<close>

lemma identity_trans:
  "pose_msg_to_trans identity_pose = \<lparr>r00 = 1, r01 = 0, tx = 0, r10 = 0, r11 = 1, ty = 0\<rparr>"
  by (simp add: pose_msg_to_trans_def identity_pose_def)

lemma straight_row_trans:
  "pose_msg_to_trans (odom_pose (straight_row i)) = \<lparr>r00 = 1, r01 = 0, tx = 1, r10 = 0, r11 = 1, ty = 0\<rparr>"
  by (simp add: pose_msg_to_trans_def odom_pose_def straight_row_def)

lemma length_straight_path: "length straight_path = 5"
  by (simp add: straight_path_def)

lemma straight_path_3_4: "RelativeTFBetweenFrames straight_path 3 4
     = Some \<lparr>r00 = 1, r01 = 0, tx = 1, r10 = 0, r11 = 1, ty = 0\<rparr>"
  by (simp add: RelativeTFBetweenFrames_def py_slice_def slice_bound_def straight_path_def
        straight_row_trans)

lemma straight_path_3_5: "RelativeTFBetweenFrames straight_path 3 5
     = Some \<lparr>r00 = 1, r01 = 0, tx = 1, r10 = 0, r11 = 1, ty = 0\<rparr>"
  by (simp add: RelativeTFBetweenFrames_def py_slice_def slice_bound_def straight_path_def
        straight_row_trans)

lemma straight_path_0_2: "RelativeTFBetweenFrames straight_path 0 2
     = Some \<lparr>r00 = 1, r01 = 0, tx = 2, r10 = 0, r11 = 1, ty = 0\<rparr>"
  by (simp add: RelativeTFBetweenFrames_def py_slice_def slice_bound_def straight_path_def
        straight_row_trans append_trans_def)

lemma straight_path_4_6: "RelativeTFBetweenFrames straight_path 4 6 = None"
  by (simp add: RelativeTFBetweenFrames_def py_slice_def slice_bound_def straight_path_def)


text \<open>
  C6. For every id \<open>k\<close>, whatever the path and also for ids past its end,
  \<open>segment(k, k)\<close> is available and is the identity transform: the identity matrix,
  neutral for composition on both sides.
\<close>

theorem segment_same_id_identity:
  "RelativeTFBetweenFrames teach_dataset k k
     = Some \<lparr>r00 = 1, r01 = 0, tx = 0, r10 = 0, r11 = 1, ty = 0\<rparr>
   \<and> append_trans \<lparr>r00 = 1, r01 = 0, tx = 0, r10 = 0, r11 = 1, ty = 0\<rparr> a = a
   \<and> append_trans a \<lparr>r00 = 1, r01 = 0, tx = 0, r10 = 0, r11 = 1, ty = 0\<rparr> = a"
  by (simp add: RelativeTFBetweenFrames_def identity_trans append_trans_def)

text \<open>
  C5. For valid ids \<open>k < m < n\<close> with \<open>n\<close> at most the last id, the three segments
  are available and composing \<open>segment(k, m)\<close> with \<open>segment(m, n)\<close> gives
  \<open>segment(k, n)\<close>. Over the reals the equality is exact.
\<close>

theorem segment_compose:
  assumes "0 \<le> k" "k < m" "m < n" "n \<le> int (length teach_dataset) - 1"
  shows "\<exists>a b. RelativeTFBetweenFrames teach_dataset k m = Some a
             \<and> RelativeTFBetweenFrames teach_dataset m n = Some b
             \<and> RelativeTFBetweenFrames teach_dataset k n = Some (append_trans a b)"
proof -
  let ?A = "py_slice teach_dataset (k + 1) (m + 1)"
  let ?B = "py_slice teach_dataset (m + 1) (n + 1)"
  have split: "py_slice teach_dataset (k + 1) (n + 1) = ?A @ ?B"
    using assms by (intro py_slice_split) simp_all
  have "?A \<noteq> []" using assms by (simp add: py_slice_Nil_iff)
  then obtain a where a: "chain_rows ?A None = Some a"
    using chain_rows_None_iff [of ?A] by auto
  have "?B \<noteq> []" using assms by (simp add: py_slice_Nil_iff)
  then obtain b where b: "chain_rows ?B None = Some b"
    using chain_rows_None_iff [of ?B] by auto
  have "chain_rows (?A @ ?B) None = Some (append_trans a b)"
    by (simp add: chain_rows_append a chain_rows_Some [of ?B a] b)
  with a b split assms show ?thesis
    by (simp add: RelativeTFBetweenFrames_def)
qed

theorem segment_compose_witness:
  "(0::int) \<le> 0 \<and> (0::int) < 1 \<and> (1::int) < 3 \<and> 3 \<le> int (length straight_path) - 1
   \<and> (\<exists>a b. RelativeTFBetweenFrames straight_path 0 1 = Some a
          \<and> RelativeTFBetweenFrames straight_path 1 3 = Some b
          \<and> RelativeTFBetweenFrames straight_path 0 3 = Some (append_trans a b))"
  using segment_compose [of 0 1 3 straight_path] by (simp add: length_straight_path)

text \<open>
  C2, as the code has it. The slice of the rows is clamped to the path, so a goal id
  past the last id \<open>N - 1\<close> is unavailable only from the last frame; from an earlier
  frame \<open>k\<close> the result is the transform chained over the rows that exist, the same
  as \<open>segment(k, N - 1)\<close>. \<open>segment(k, N - 1)\<close> is available for every valid \<open>k\<close>.
\<close>

theorem segment_past_end:
  assumes "0 \<le> k" "k \<le> int (length teach_dataset) - 1" "int (length teach_dataset) \<le> to_id"
  shows "RelativeTFBetweenFrames teach_dataset k (int (length teach_dataset) - 1) \<noteq> None
       \<and> RelativeTFBetweenFrames teach_dataset k to_id
           = (if k = int (length teach_dataset) - 1 then None
              else RelativeTFBetweenFrames teach_dataset k (int (length teach_dataset) - 1))"
proof (cases "k = int (length teach_dataset) - 1")
  case True
  have "py_slice teach_dataset (k + 1) (to_id + 1) = []"
    using assms True by (simp add: py_slice_Nil_iff)
  with assms True show ?thesis
    by (simp add: RelativeTFBetweenFrames_def)
next
  case False
  let ?N = "int (length teach_dataset)"
  have ne: "py_slice teach_dataset (k + 1) ?N \<noteq> []"
    using assms False by (simp add: py_slice_Nil_iff)
  have "py_slice teach_dataset (k + 1) (to_id + 1) = py_slice teach_dataset (k + 1) ?N"
    using assms by (intro py_slice_clamp) simp
  with ne assms False show ?thesis
    by (simp add: RelativeTFBetweenFrames_def chain_rows_None_iff)
qed

theorem segment_past_end_witness:
  "(0::int) \<le> 3 \<and> 3 \<le> int (length straight_path) - 1 \<and> int (length straight_path) \<le> 5
   \<and> RelativeTFBetweenFrames straight_path 3 4 \<noteq> None
   \<and> RelativeTFBetweenFrames straight_path 3 5 = RelativeTFBetweenFrames straight_path 3 4"
  using segment_past_end [of 3 straight_path 5] by (simp add: length_straight_path)

theorem segment_past_end_counterexample:
  "int (length straight_path) = 5
   \<and> RelativeTFBetweenFrames straight_path 3 5
       = Some \<lparr>r00 = 1, r01 = 0, tx = 1, r10 = 0, r11 = 1, ty = 0\<rparr>
   \<and> RelativeTFBetweenFrames straight_path 3 5 \<noteq> None"
  by (simp add: length_straight_path straight_path_3_5)

section \<open>The search window\<close>

lemma frame_ids_set_frame_ids:
  "map frame_id (set_frame_ids rows) = map int [0..<length rows]"
proof -
  have "map frame_id (set_frame_ids rows) = map (int \<circ> fst) (enumerate 0 rows)"
    by (simp add: set_frame_ids_def case_prod_unfold comp_def)
  also have "\<dots> = map int (map fst (enumerate 0 rows))"
    by (simp only: map_map)
  also have "map fst (enumerate 0 rows) = [0..<length rows]"
    by (simp add: map_fst_enumerate)
  finally show ?thesis .
qed

lemma length_set_frame_ids: "length (set_frame_ids rows) = length rows"
  by (simp add: set_frame_ids_def)

lemma map_py_slice: "map f (py_slice xs a b) = py_slice (map f xs) a b"
  by (simp add: py_slice_def Let_def take_map drop_map)

lemma take_drop_upt:
  assumes "e \<le> n"
  shows "take (e - s) (drop s [0..<n]) = [s..<e]"
proof (cases "s \<le> e")
  case True
  with assms have "take (e - s) [s..<n] = [s..<s + (e - s)]"
    by (intro take_upt) simp
  with True show ?thesis by simp
next
  case False
  then show ?thesis by simp
qed

lemma slice_bound_le: "slice_bound i n \<le> n"
proof (cases "i < 0")
  case True
  then have "nat (max (i + int n) 0) \<le> n" by linarith
  with True show ?thesis by (simp add: slice_bound_def)
next
  case False
  then show ?thesis by (simp add: slice_bound_def)
qed

lemma py_slice_upt:
  "py_slice (map int [0..<n]) a b = map int [slice_bound a n..<slice_bound b n]"
proof -
  let ?s = "slice_bound a n" and ?e = "slice_bound b n"
  have "py_slice (map int [0..<n]) a b = take (?e - ?s) (drop ?s (map int [0..<n]))"
    by (simp add: py_slice_def Let_def)
  also have "\<dots> = map int (take (?e - ?s) (drop ?s [0..<n]))"
    by (simp only: take_map drop_map)
  also have "take (?e - ?s) (drop ?s [0..<n]) = [?s..<?e]"
    by (intro take_drop_upt slice_bound_le)
  finally show ?thesis .
qed

lemma search_window_slice:
  "search_window cfg (set_frame_ids rows) cursor
   = py_slice (map int [0..<length rows]) (max (cursor - FRAME_SEARCH_WINDOW cfg) 0)
       (min (cursor + FRAME_SEARCH_WINDOW cfg + 1) (int (length rows)))"
  by (simp add: search_window_def Let_def map_py_slice frame_ids_set_frame_ids
        length_set_frame_ids)

lemma upt_past_end: "e \<le> n \<Longrightarrow> [min s n..<e] = [s..<e]"
  by (cases "s \<le> n") (simp_all add: min_def)

lemma search_window_eq:
  assumes "0 \<le> cursor" "0 \<le> FRAME_SEARCH_WINDOW cfg"
  shows "search_window cfg (set_frame_ids rows) cursor
         = map int [nat (cursor - FRAME_SEARCH_WINDOW cfg)
                    ..<min (nat (cursor + FRAME_SEARCH_WINDOW cfg + 1)) (length rows)]"
proof -
  let ?w = "FRAME_SEARCH_WINDOW cfg" and ?n = "length rows"
  have "search_window cfg (set_frame_ids rows) cursor
        = py_slice (map int [0..<?n]) (max (cursor - ?w) 0) (min (cursor + ?w + 1) (int ?n))"
    by (rule search_window_slice)
  also have "\<dots> = map int [min (nat (max (cursor - ?w) 0)) ?n
                         ..<min (nat (min (cursor + ?w + 1) (int ?n))) ?n]"
    using assms by (simp add: py_slice_upt slice_bound_nonneg)
  also have "min (nat (min (cursor + ?w + 1) (int ?n))) ?n = min (nat (cursor + ?w + 1)) ?n"
    by linarith
  also have "nat (max (cursor - ?w) 0) = nat (cursor - ?w)"
    by (simp add: max_def)
  also have "[min (nat (cursor - ?w)) ?n..<min (nat (cursor + ?w + 1)) ?n]
             = [nat (cursor - ?w)..<min (nat (cursor + ?w + 1)) ?n]"
    by (intro upt_past_end) simp
  finally show ?thesis .
qed

lemma set_map_int_upt: "set (map int [s..<e]) = {j. int s \<le> j \<and> j < int e}"
proof (intro set_eqI iffI)
  fix j assume "j \<in> set (map int [s..<e])"
  then show "j \<in> {j. int s \<le> j \<and> j < int e}" by auto
next
  fix j assume "j \<in> {j. int s \<le> j \<and> j < int e}"
  then have "j = int (nat j)" "nat j \<in> set [s..<e]" by auto
  then show "j \<in> set (map int [s..<e])" by (metis image_eqI set_map)
qed

lemma set_search_window:
  assumes "0 \<le> cursor" "0 \<le> FRAME_SEARCH_WINDOW cfg"
  shows "set (search_window cfg (set_frame_ids rows) cursor)
         = {j. max (cursor - FRAME_SEARCH_WINDOW cfg) 0 \<le> j
               \<and> j < min (cursor + FRAME_SEARCH_WINDOW cfg + 1) (int (length rows))}"
  using assms by (auto simp add: search_window_eq set_map_int_upt simp del: set_map)

lemma sorted_search_window:
  "sorted_wrt (<) (search_window cfg (set_frame_ids rows) cursor)"
  by (simp add: search_window_slice py_slice_upt sorted_wrt_map)

section \<open>The matching loop\<close>

lemma scan_append: "scan mt (xs @ ys) v = scan mt ys (scan mt xs v)"
  by (induction xs arbitrary: v) simp_all

lemma max_location_scan_step: "max_location (scan_step mt i v) = Some (snd (mt i))"
  by (simp add: scan_step_def case_prod_unfold Let_def)

lemma max_location_scan:
  "max_location (scan mt ids v) = (if ids = [] then max_location v else Some (snd (mt (last ids))))"
proof (induction ids rule: rev_induct)
  case Nil
  show ?case by simp
next
  case (snoc i ids)
  show ?case by (simp add: scan_append max_location_scan_step)
qed

lemma scan_step_first: "is_best mt {i} (scan_step mt i (scan_init cursor))"
  by (simp add: is_best_def scan_step_def scan_init_def case_prod_unfold Let_def)

lemma scan_step_is_best:
  assumes "is_best mt S v" "\<forall>j\<in>S. j < i"
  shows "is_best mt (insert i S) (scan_step mt i v)"
proof (cases "fst (mt (matched_teach_frame_id v)) < fst (mt i)")
  case True
  with assms have "scan_step mt i v
      = v\<lparr>max_location := Some (snd (mt i)), best_score := Some (fst (mt i)),
           best_max_location := Some (snd (mt i)), matched_teach_frame_id := i\<rparr>"
    by (simp add: scan_step_def is_best_def case_prod_unfold Let_def)
  moreover have "\<forall>j\<in>S. fst (mt j) < fst (mt i)"
    using assms True by (auto simp: is_best_def)
  ultimately show ?thesis
    by (auto simp: is_best_def)
next
  case False
  with assms have "scan_step mt i v = v\<lparr>max_location := Some (snd (mt i))\<rparr>"
    by (simp add: scan_step_def is_best_def case_prod_unfold Let_def)
  moreover have "matched_teach_frame_id v < i"
    using assms by (simp add: is_best_def)
  ultimately show ?thesis
    using assms False by (auto simp: is_best_def)
qed

lemma scan_is_best:
  assumes "is_best mt S v" "\<forall>j\<in>S. \<forall>i\<in>set ids. j < i" "sorted_wrt (<) ids"
  shows "is_best mt (S \<union> set ids) (scan mt ids v)"
  using assms
proof (induction ids arbitrary: S v)
  case Nil
  then show ?case by simp
next
  case (Cons i ids)
  have "is_best mt (insert i S) (scan_step mt i v)"
    using Cons.prems by (intro scan_step_is_best) simp_all
  moreover have "\<forall>j\<in>insert i S. \<forall>i'\<in>set ids. j < i'"
    using Cons.prems by auto
  moreover have "sorted_wrt (<) ids"
    using Cons.prems by simp
  ultimately have "is_best mt (insert i S \<union> set ids) (scan mt ids (scan_step mt i v))"
    by (rule Cons.IH)
  then show ?case by simp
qed

lemma scan_init_is_best:
  assumes "ids \<noteq> []" "sorted_wrt (<) ids"
  shows "is_best mt (set ids) (scan mt ids (scan_init cursor))"
proof (cases ids)
  case Nil
  with assms show ?thesis by simp
next
  case (Cons i rest)
  have "is_best mt ({i} \<union> set rest) (scan mt rest (scan_step mt i (scan_init cursor)))"
    using assms Cons by (intro scan_is_best scan_step_first) auto
  with Cons show ?thesis by simp
qed

section \<open>Image matching\<close>

lemma search_window_nonempty:
  assumes "0 \<le> cursor" "cursor < int (length rows)" "0 \<le> FRAME_SEARCH_WINDOW cfg"
  shows "search_window cfg (set_frame_ids rows) cursor \<noteq> []"
proof -
  have "cursor \<in> set (search_window cfg (set_frame_ids rows) cursor)"
    using assms by (simp add: set_search_window)
  then show ?thesis by auto
qed

lemma ImageMatching_scan:
  fixes img :: live_frame and cfg :: config and rows :: "teach_frame list" and st :: node_state
  defines "window \<equiv> search_window cfg (set_frame_ids rows) (current_matched_teach_frame_id st)"
  assumes ne: "window \<noteq> []"
  defines "v \<equiv> scan (match_template img) window (scan_init (current_matched_teach_frame_id st))"
  shows "is_best (match_template img) (set window) v"
    and "ImageMatching cfg (set_frame_ids rows) img st
         = Inr (st\<lparr>current_matched_teach_frame_id := matched_teach_frame_id v,
                   patch_center_location :=
                     patch_center (snd (match_template img (last window))) (patch_shape img)\<rparr>,
                matched_teach_frame_id v,
                estimate_offsets cfg
                  (patch_center (snd (match_template img (last window))) (patch_shape img)))"
proof -
  have sorted: "sorted_wrt (<) window"
    unfolding window_def by (rule sorted_search_window)
  show "is_best (match_template img) (set window) v"
    unfolding v_def using ne sorted by (rule scan_init_is_best)
  have "max_location v = Some (snd (match_template img (last window)))"
    unfolding v_def using ne by (simp add: max_location_scan)
  then show "ImageMatching cfg (set_frame_ids rows) img st
         = Inr (st\<lparr>current_matched_teach_frame_id := matched_teach_frame_id v,
                   patch_center_location :=
                     patch_center (snd (match_template img (last window))) (patch_shape img)\<rparr>,
                matched_teach_frame_id v,
                estimate_offsets cfg
                  (patch_center (snd (match_template img (last window))) (patch_shape img)))"
    by (simp add: ImageMatching_def Let_def flip: window_def v_def)
qed

lemma ImageMatching_cursor:
  fixes img :: live_frame and cfg :: config and rows :: "teach_frame list" and st :: node_state
  defines "window \<equiv> search_window cfg (set_frame_ids rows) (current_matched_teach_frame_id st)"
  assumes ne: "window \<noteq> []"
  shows "\<exists>st' offsets.
           ImageMatching cfg (set_frame_ids rows) img st
             = Inr (st', current_matched_teach_frame_id st', offsets)
           \<and> current_matched_teach_frame_id st' \<in> set window
           \<and> (\<forall>j\<in>set window. fst (match_template img j)
                  \<le> fst (match_template img (current_matched_teach_frame_id st')))
           \<and> (\<forall>j\<in>set window. fst (match_template img j)
                  = fst (match_template img (current_matched_teach_frame_id st'))
                \<longrightarrow> current_matched_teach_frame_id st' \<le> j)"
proof -
  let ?v = "scan (match_template img) window (scan_init (current_matched_teach_frame_id st))"
  let ?c = "patch_center (snd (match_template img (last window))) (patch_shape img)"
  let ?st = "st\<lparr>current_matched_teach_frame_id := matched_teach_frame_id ?v,
                patch_center_location := ?c\<rparr>"
  have best: "is_best (match_template img) (set window) ?v"
    using ne unfolding window_def by (rule ImageMatching_scan(1))
  have res: "ImageMatching cfg (set_frame_ids rows) img st
         = Inr (?st, matched_teach_frame_id ?v, estimate_offsets cfg ?c)"
    using ne unfolding window_def by (rule ImageMatching_scan(2))
  have cur: "current_matched_teach_frame_id ?st = matched_teach_frame_id ?v" by simp
  show ?thesis
  proof (intro exI conjI)
    show "ImageMatching cfg (set_frame_ids rows) img st
          = Inr (?st, current_matched_teach_frame_id ?st, estimate_offsets cfg ?c)"
      using res by (simp only: cur)
    show "current_matched_teach_frame_id ?st \<in> set window"
      unfolding cur using best unfolding is_best_def by blast
    show "\<forall>j\<in>set window. fst (match_template img j)
            \<le> fst (match_template img (current_matched_teach_frame_id ?st))"
      unfolding cur using best unfolding is_best_def by blast
    show "\<forall>j\<in>set window. fst (match_template img j)
            = fst (match_template img (current_matched_teach_frame_id ?st))
          \<longrightarrow> current_matched_teach_frame_id ?st \<le> j"
      unfolding cur using best unfolding is_best_def by blast
  qed
qed

lemma Controller_cursor:
  "current_matched_teach_frame_id (Controller cfg teach_dataset m offsets st)
   = current_matched_teach_frame_id st"
  by (simp add: Controller_def publish_def Let_def case_prod_unfold split: option.splits)

lemma Image_Callback_cursor:
  assumes "0 \<le> current_matched_teach_frame_id st"
    "current_matched_teach_frame_id st < int (length rows)" "0 \<le> FRAME_SEARCH_WINDOW cfg"
  shows "\<exists>st'. Image_Callback cfg (set_frame_ids rows) img st = Inr st'
           \<and> 0 \<le> current_matched_teach_frame_id st'
           \<and> current_matched_teach_frame_id st' < int (length rows)"
proof -
  have "search_window cfg (set_frame_ids rows) (current_matched_teach_frame_id st) \<noteq> []"
    using assms by (rule search_window_nonempty)
  from ImageMatching_cursor [OF this, where img = img] obtain st1 offsets where
    im: "ImageMatching cfg (set_frame_ids rows) img st
           = Inr (st1, current_matched_teach_frame_id st1, offsets)"
    and mem: "current_matched_teach_frame_id st1
           \<in> set (search_window cfg (set_frame_ids rows) (current_matched_teach_frame_id st))"
    by blast
  from mem assms have "0 \<le> current_matched_teach_frame_id st1"
    "current_matched_teach_frame_id st1 < int (length rows)"
    by (simp_all add: set_search_window)
  with im show ?thesis
    by (simp add: Image_Callback_def Controller_cursor)
qed

lemma run_cursor:
  assumes "0 \<le> current_matched_teach_frame_id st"
    "current_matched_teach_frame_id st < int (length rows)" "0 \<le> FRAME_SEARCH_WINDOW cfg"
  shows "\<exists>st'. run cfg (set_frame_ids rows) imgs st = Inr st'
           \<and> 0 \<le> current_matched_teach_frame_id st'
           \<and> current_matched_teach_frame_id st' < int (length rows)"
  using assms
proof (induction imgs arbitrary: st)
  case Nil
  then show ?case by simp
next
  case (Cons img imgs)
  from Image_Callback_cursor [OF Cons.prems, of img] obtain st1 where
    "Image_Callback cfg (set_frame_ids rows) img st = Inr st1"
    "0 \<le> current_matched_teach_frame_id st1"
    "current_matched_teach_frame_id st1 < int (length rows)"
    by blast
  with Cons.IH [of st1] Cons.prems(3) show ?case by simp
qed

section \<open>Matching on the straight path\<close>

lemma set_frame_ids_straight_path: "set_frame_ids straight_path = straight_path"
  by (simp add: set_frame_ids_def straight_path_def straight_row_def)

lemma window_straight_0: "search_window default_config straight_path 0 = [0, 1, 2, 3]"
  by (simp add: search_window_def default_config_def straight_path_def straight_row_def
        py_slice_def slice_bound_def)

lemma window_straight_3: "search_window default_config straight_path 3 = [0, 1, 2, 3, 4]"
  by (simp add: search_window_def default_config_def straight_path_def straight_row_def
        py_slice_def slice_bound_def)

lemma scan_frame_at_0:
  "scan (match_template (frame_at 0)) [0, 1, 2, 3] (scan_init 0)
   = \<lparr>best_score = Some (9 / 10), best_max_location = Some (2, 10),
      max_location = Some (10, 10), matched_teach_frame_id = 0\<rparr>"
  by (simp add: frame_at_def scan_step_def scan_init_def)

lemma cursor_init_state: "current_matched_teach_frame_id init_state = 0"
  by (simp add: init_state_def)

text \<open>
  C3. On the straight path, from the initial state, the image \<open>frame_at 0\<close> is
  matched to teach frame 0, whose correlation maximum is at \<open>(2, 10)\<close>: patch centre
  \<open>(21, 24)\<close> and lateral offset \<open>0.02 * 11\<close>. The code takes the location from the
  loop variable \<^verbatim>\<open>max_location\<close>, which holds the maximum of teach frame 3, the
  last one scanned, at \<open>(10, 10)\<close>: it returns the patch centre \<open>(29, 24)\<close> and the
  lateral offset \<open>0.02 * 3\<close>, and never reads \<^verbatim>\<open>best_max_location\<close>.
\<close>

theorem ImageMatching_last_scanned_location:
  "ImageMatching default_config straight_path (frame_at 0) init_state
   = Inr (init_state\<lparr>patch_center_location := (29, 24)\<rparr>, 0, (0, 6 / 100, 0))
   \<and> match_template (frame_at 0) 0 = (9 / 10, (2, 10))
   \<and> match_template (frame_at 0) 3 = (1 / 2, (10, 10))
   \<and> patch_center (2, 10) (patch_shape (frame_at 0)) = (21, 24)
   \<and> estimate_offsets default_config (21, 24) = (0, 22 / 100, 0)"
proof -
  have "patch_shape (frame_at 0) = (28, 38)"
    by (simp add: frame_at_def)
  then show ?thesis
    unfolding ImageMatching_def cursor_init_state window_straight_0 scan_frame_at_0
    by (simp add: patch_center_def estimate_offsets_def default_config_def init_state_def)
      (simp add: frame_at_def)
qed


text \<open>
  C4. The candidates are scanned in ascending id order; a candidate replaces a running
  best \<open>best\<close> only if its maximum is strictly greater; so, for every window that
  holds a candidate, the matched frame, which is the new cursor, is a frame of the
  window with the greatest score of the window, and the lowest id among the frames
  with that score.
\<close>

theorem ties_select_lowest_id:
  fixes img :: live_frame
  assumes "search_window cfg (set_frame_ids rows) (current_matched_teach_frame_id st) \<noteq> []"
  shows "sorted_wrt (<) (search_window cfg (set_frame_ids rows) (current_matched_teach_frame_id st))
    \<and> matched_teach_frame_id (scan_step mt i (v\<lparr>best_score := Some best\<rparr>))
        = (if best < fst (mt i) then i else matched_teach_frame_id v)
    \<and> (\<exists>st' offsets.
          ImageMatching cfg (set_frame_ids rows) img st
            = Inr (st', current_matched_teach_frame_id st', offsets)
          \<and> current_matched_teach_frame_id st'
              \<in> set (search_window cfg (set_frame_ids rows) (current_matched_teach_frame_id st))
          \<and> (\<forall>j\<in>set (search_window cfg (set_frame_ids rows) (current_matched_teach_frame_id st)).
                fst (match_template img j)
                  \<le> fst (match_template img (current_matched_teach_frame_id st')))
          \<and> (\<forall>j\<in>set (search_window cfg (set_frame_ids rows) (current_matched_teach_frame_id st)).
                fst (match_template img j)
                  = fst (match_template img (current_matched_teach_frame_id st'))
                \<longrightarrow> current_matched_teach_frame_id st' \<le> j))"
proof (intro conjI)
  show "sorted_wrt (<) (search_window cfg (set_frame_ids rows) (current_matched_teach_frame_id st))"
    by (rule sorted_search_window)
  show "matched_teach_frame_id (scan_step mt i (v\<lparr>best_score := Some best\<rparr>))
        = (if best < fst (mt i) then i else matched_teach_frame_id v)"
    by (simp add: scan_step_def case_prod_unfold Let_def)
  show "\<exists>st' offsets.
          ImageMatching cfg (set_frame_ids rows) img st
            = Inr (st', current_matched_teach_frame_id st', offsets)
          \<and> current_matched_teach_frame_id st'
              \<in> set (search_window cfg (set_frame_ids rows) (current_matched_teach_frame_id st))
          \<and> (\<forall>j\<in>set (search_window cfg (set_frame_ids rows) (current_matched_teach_frame_id st)).
                fst (match_template img j)
                  \<le> fst (match_template img (current_matched_teach_frame_id st')))
          \<and> (\<forall>j\<in>set (search_window cfg (set_frame_ids rows) (current_matched_teach_frame_id st)).
                fst (match_template img j)
                  = fst (match_template img (current_matched_teach_frame_id st'))
                \<longrightarrow> current_matched_teach_frame_id st' \<le> j)"
    using assms by (rule ImageMatching_cursor)
qed

lemma window_default: "0 \<le> FRAME_SEARCH_WINDOW default_config"
  by (simp add: default_config_def)

theorem ties_select_lowest_id_witness:
  "search_window default_config straight_path (current_matched_teach_frame_id init_state) \<noteq> []
   \<and> (\<exists>st' offsets.
          ImageMatching default_config straight_path tie_frame init_state
            = Inr (st', current_matched_teach_frame_id st', offsets)
          \<and> current_matched_teach_frame_id st' \<in> {0, 1, 2, 3}
          \<and> (\<forall>j\<in>{0, 1, 2, 3}.
                fst (match_template tie_frame j)
                  = fst (match_template tie_frame (current_matched_teach_frame_id st'))
                \<longrightarrow> current_matched_teach_frame_id st' \<le> j))"
  using ties_select_lowest_id [where cfg = default_config and st = init_state
      and rows = straight_path and img = tie_frame]
  by (simp add: cursor_init_state set_frame_ids_straight_path window_straight_0)
    blast

section \<open>The cursor\<close>

text \<open>
  C10. With a window half-width of at least 0 and a path of at least one frame: the
  cursor starts at 0; the running best starts as \<open>None\<close>, so the first scanned
  candidate always becomes the running best; every run of frames from the initial
  state ends with the cursor in \<open>[0, N)\<close>; and a call of \<^verbatim>\<open>ImageMatching\<close> with the
  cursor at a valid id \<open>prev\<close> has a non-empty window, returns the new cursor, which
  lies in \<open>[max(0, prev - w), min(N, prev + w + 1))\<close> and in \<open>[0, N)\<close>, and leaves a
  non-empty window for the next call.
\<close>

theorem cursor_stays_valid:
  fixes img :: live_frame
  assumes "0 \<le> FRAME_SEARCH_WINDOW cfg" "rows \<noteq> []"
  shows "current_matched_teach_frame_id init_state = 0
    \<and> best_score (scan_init c) = None
    \<and> matched_teach_frame_id (scan_step mt i (scan_init c)) = i
    \<and> best_score (scan_step mt i (scan_init c)) = Some (fst (mt i))
    \<and> (\<exists>st'. run cfg (set_frame_ids rows) imgs init_state = Inr st'
          \<and> 0 \<le> current_matched_teach_frame_id st'
          \<and> current_matched_teach_frame_id st' < int (length rows))
    \<and> (0 \<le> current_matched_teach_frame_id st
         \<and> current_matched_teach_frame_id st < int (length rows) \<longrightarrow>
        search_window cfg (set_frame_ids rows) (current_matched_teach_frame_id st) \<noteq> []
        \<and> (\<exists>st' offsets.
              ImageMatching cfg (set_frame_ids rows) img st
                = Inr (st', current_matched_teach_frame_id st', offsets)
              \<and> max 0 (current_matched_teach_frame_id st - FRAME_SEARCH_WINDOW cfg)
                  \<le> current_matched_teach_frame_id st'
              \<and> current_matched_teach_frame_id st'
                  < min (int (length rows))
                      (current_matched_teach_frame_id st + FRAME_SEARCH_WINDOW cfg + 1)
              \<and> 0 \<le> current_matched_teach_frame_id st'
              \<and> current_matched_teach_frame_id st' < int (length rows)
              \<and> search_window cfg (set_frame_ids rows) (current_matched_teach_frame_id st')
                  \<noteq> []))"
proof (intro conjI impI)
  show "current_matched_teach_frame_id init_state = 0"
    by (rule cursor_init_state)
  show "best_score (scan_init c) = None"
    by (simp add: scan_init_def)
  show "matched_teach_frame_id (scan_step mt i (scan_init c)) = i"
    by (simp add: scan_step_def scan_init_def case_prod_unfold Let_def)
  show "best_score (scan_step mt i (scan_init c)) = Some (fst (mt i))"
    by (simp add: scan_step_def scan_init_def case_prod_unfold Let_def)
  have "0 \<le> current_matched_teach_frame_id init_state"
    "current_matched_teach_frame_id init_state < int (length rows)"
    using assms(2) by (simp_all add: cursor_init_state)
  then show "\<exists>st'. run cfg (set_frame_ids rows) imgs init_state = Inr st'
          \<and> 0 \<le> current_matched_teach_frame_id st'
          \<and> current_matched_teach_frame_id st' < int (length rows)"
    using assms(1) by (rule run_cursor)
next
  assume prev: "0 \<le> current_matched_teach_frame_id st
    \<and> current_matched_teach_frame_id st < int (length rows)"
  then show "search_window cfg (set_frame_ids rows) (current_matched_teach_frame_id st) \<noteq> []"
    using assms(1) by (intro search_window_nonempty) simp_all
  from prev have p: "0 \<le> current_matched_teach_frame_id st"
    "current_matched_teach_frame_id st < int (length rows)" by simp_all
  have "search_window cfg (set_frame_ids rows) (current_matched_teach_frame_id st) \<noteq> []"
    using p assms(1) by (rule search_window_nonempty)
  from ImageMatching_cursor [OF this, where img = img] obtain st1 offsets where
    im: "ImageMatching cfg (set_frame_ids rows) img st
           = Inr (st1, current_matched_teach_frame_id st1, offsets)"
    and mem: "current_matched_teach_frame_id st1
           \<in> set (search_window cfg (set_frame_ids rows) (current_matched_teach_frame_id st))"
    by blast
  from mem p assms(1) have range:
    "max 0 (current_matched_teach_frame_id st - FRAME_SEARCH_WINDOW cfg)
       \<le> current_matched_teach_frame_id st1"
    "current_matched_teach_frame_id st1
       < min (int (length rows)) (current_matched_teach_frame_id st + FRAME_SEARCH_WINDOW cfg + 1)"
    by (simp_all add: set_search_window)
  then have valid: "0 \<le> current_matched_teach_frame_id st1"
    "current_matched_teach_frame_id st1 < int (length rows)"
    by simp_all
  then have "search_window cfg (set_frame_ids rows) (current_matched_teach_frame_id st1) \<noteq> []"
    using assms(1) by (rule search_window_nonempty)
  with im range valid show "\<exists>st' offsets.
              ImageMatching cfg (set_frame_ids rows) img st
                = Inr (st', current_matched_teach_frame_id st', offsets)
              \<and> max 0 (current_matched_teach_frame_id st - FRAME_SEARCH_WINDOW cfg)
                  \<le> current_matched_teach_frame_id st'
              \<and> current_matched_teach_frame_id st'
                  < min (int (length rows))
                      (current_matched_teach_frame_id st + FRAME_SEARCH_WINDOW cfg + 1)
              \<and> 0 \<le> current_matched_teach_frame_id st'
              \<and> current_matched_teach_frame_id st' < int (length rows)
              \<and> search_window cfg (set_frame_ids rows) (current_matched_teach_frame_id st')
                  \<noteq> []"
    by blast
qed

theorem cursor_stays_valid_witness:
  "0 \<le> FRAME_SEARCH_WINDOW default_config \<and> straight_path \<noteq> []
   \<and> 0 \<le> current_matched_teach_frame_id init_state
   \<and> current_matched_teach_frame_id init_state < int (length straight_path)
   \<and> (\<exists>st'. run default_config straight_path [frame_at 3, frame_at 4] init_state = Inr st'
          \<and> 0 \<le> current_matched_teach_frame_id st'
          \<and> current_matched_teach_frame_id st' < 5)
   \<and> (\<exists>st' offsets.
          ImageMatching default_config straight_path (frame_at 3) init_state
            = Inr (st', current_matched_teach_frame_id st', offsets)
          \<and> 0 \<le> current_matched_teach_frame_id st'
          \<and> current_matched_teach_frame_id st' < 4)"
proof -
  have w: "0 \<le> FRAME_SEARCH_WINDOW default_config"
    by (rule window_default)
  have ne: "straight_path \<noteq> []"
    by (simp add: straight_path_def)
  have c: "0 \<le> current_matched_teach_frame_id init_state
    \<and> current_matched_teach_frame_id init_state < int (length straight_path)"
    by (simp add: cursor_init_state length_straight_path)
  note t = cursor_stays_valid [OF w ne, where st = init_state and img = "frame_at 3"
      and imgs = "[frame_at 3, frame_at 4]", unfolded set_frame_ids_straight_path]
  from t have "\<exists>st'. run default_config straight_path [frame_at 3, frame_at 4] init_state = Inr st'
          \<and> 0 \<le> current_matched_teach_frame_id st'
          \<and> current_matched_teach_frame_id st' < int (length straight_path)"
    by blast
  then have r: "\<exists>st'. run default_config straight_path [frame_at 3, frame_at 4] init_state = Inr st'
          \<and> 0 \<le> current_matched_teach_frame_id st'
          \<and> current_matched_teach_frame_id st' < 5"
    by (simp add: length_straight_path)
  from t c have "\<exists>st' offsets.
          ImageMatching default_config straight_path (frame_at 3) init_state
            = Inr (st', current_matched_teach_frame_id st', offsets)
          \<and> 0 \<le> current_matched_teach_frame_id st'
          \<and> current_matched_teach_frame_id st'
                  < min (int (length straight_path))
                      (current_matched_teach_frame_id init_state
                        + FRAME_SEARCH_WINDOW default_config + 1)"
    by blast
  then have m: "\<exists>st' offsets.
          ImageMatching default_config straight_path (frame_at 3) init_state
            = Inr (st', current_matched_teach_frame_id st', offsets)
          \<and> 0 \<le> current_matched_teach_frame_id st'
          \<and> current_matched_teach_frame_id st' < 4"
    by (simp add: length_straight_path cursor_init_state default_config_def)
  from w ne c r m show ?thesis by blast
qed

section \<open>The controller\<close>

lemma Controller_unavailable:
  assumes "RelativeTFBetweenFrames teach_dataset m (m + TARGET_FRAME_LOOKAHEAD cfg) = None"
  shows "Controller cfg teach_dataset m offsets st
         = st\<lparr>drive_speed := 0, published := published st @ [(0, drive_steering_angle st)]\<rparr>"
  using assms by (simp add: Controller_def publish_def)

lemma Controller_available:
  assumes "RelativeTFBetweenFrames teach_dataset m (m + TARGET_FRAME_LOOKAHEAD cfg) = Some goal"
  shows "Controller cfg teach_dataset m offsets st
         = st\<lparr>drive_speed :=
                 fst (control_law cfg (distance_of_trans (offset_goal offsets goal))
                        (arctan2 (ty (offset_goal offsets goal)) (tx (offset_goal offsets goal)))
                        (yaw_from_trans (offset_goal offsets goal))),
               drive_steering_angle :=
                 snd (control_law cfg (distance_of_trans (offset_goal offsets goal))
                        (arctan2 (ty (offset_goal offsets goal)) (tx (offset_goal offsets goal)))
                        (yaw_from_trans (offset_goal offsets goal))),
               published := published st @
                 [control_law cfg (distance_of_trans (offset_goal offsets goal))
                        (arctan2 (ty (offset_goal offsets goal)) (tx (offset_goal offsets goal)))
                        (yaw_from_trans (offset_goal offsets goal))]\<rparr>"
  using assms by (simp add: Controller_def publish_def Let_def case_prod_unfold)

lemma control_law_speed:
  "fst (control_law cfg rho alpha beta) = min (max (RHO_GAIN cfg * rho) 0) (MAX_FORWARD_VELOCITY cfg)"
  by (simp add: control_law_def Let_def)

lemma control_law_steering:
  "snd (control_law cfg rho alpha beta)
   = min (max (if fst (control_law cfg rho alpha beta) \<noteq> 0
               then arctan ((ALPHA_GAIN cfg * alpha + BETA_GAIN cfg * beta) * WHEEL_BASE cfg
                            / fst (control_law cfg rho alpha beta))
               else 0)
            (MIN_STEERING_ANGLE cfg)) (MAX_STEERING_ANGLE cfg)"
  by (simp add: control_law_def Let_def)

lemma offset_goal_zero: "offset_goal (0, 0, 0) goal = goal"
  by (simp add: offset_goal_def diff_trans_def invert_trans_def append_trans_def
        pose_msg_to_trans_def)

lemma lookahead_ge_1: "1 \<le> TARGET_FRAME_LOOKAHEAD cfg"
  by (simp add: TARGET_FRAME_LOOKAHEAD_def)

section \<open>Commands on the straight path\<close>

lemma straight_goal_0:
  "TARGET_FRAME_LOOKAHEAD cfg = 2 \<Longrightarrow>
   RelativeTFBetweenFrames straight_path 0 (0 + TARGET_FRAME_LOOKAHEAD cfg)
     = Some \<lparr>r00 = 1, r01 = 0, tx = 2, r10 = 0, r11 = 1, ty = 0\<rparr>"
  by (simp add: straight_path_0_2)

lemma straight_goal_0_quantities:
  "distance_of_trans \<lparr>r00 = 1, r01 = 0, tx = 2, r10 = 0, r11 = 1, ty = 0\<rparr> = 2"
  "arctan2 (ty \<lparr>r00 = 1, r01 = 0, tx = 2, r10 = 0, r11 = 1, ty = 0\<rparr>)
     (tx \<lparr>r00 = 1, r01 = 0, tx = 2, r10 = 0, r11 = 1, ty = 0\<rparr>) = 0"
  "yaw_from_trans \<lparr>r00 = 1, r01 = 0, tx = 2, r10 = 0, r11 = 1, ty = 0\<rparr> = 0"
  by (simp_all add: distance_of_trans_def arctan2_def yaw_from_trans_def)

lemma Controller_straight_0:
  assumes "TARGET_FRAME_LOOKAHEAD cfg = 2"
  shows "Controller cfg straight_path 0 (0, 0, 0) st
         = st\<lparr>drive_speed := fst (control_law cfg 2 0 0),
               drive_steering_angle := snd (control_law cfg 2 0 0),
               published := published st @ [control_law cfg 2 0 0]\<rparr>"
  using Controller_available [OF straight_goal_0 [OF assms], of "(0, 0, 0)" st]
  by (simp only: offset_goal_zero straight_goal_0_quantities)

lemma control_law_default: "control_law default_config 2 0 0 = (1 / 2, 0)"
  by (simp add: control_law_def default_config_def)

lemma lookahead_examples:
  "TARGET_FRAME_LOOKAHEAD default_config = 2"
  "TARGET_FRAME_LOOKAHEAD negative_speed_config = 2"
  "TARGET_FRAME_LOOKAHEAD left_only_config = 2"
  "TARGET_FRAME_LOOKAHEAD right_only_config = 2"
  by (simp_all add: TARGET_FRAME_LOOKAHEAD_def default_config_def negative_speed_config_def
        left_only_config_def right_only_config_def)


text \<open>
  C8. When the goal is available the published command is the pair held by the
  message, with \<open>speed = min(max(rho_gain * rho, 0), max_speed)\<close> and
  \<open>steering = min(max(raw, min_steering), max_steering)\<close>, where \<open>raw\<close> is
  \<open>atan(omega * wheelbase / speed)\<close> when the speed is not 0 and 0 otherwise. The
  speed never exceeds \<open>max_speed\<close> and equals it once \<open>rho_gain * rho\<close> reaches it,
  and the steering never exceeds \<open>max_steering\<close>, whatever the parameters. The speed
  lies in \<open>[0, max_speed]\<close> whenever that interval is not empty, and the steering in
  \<open>[min_steering, max_steering]\<close> whenever that interval is not empty, however
  extreme \<open>omega\<close> is.
\<close>

theorem Controller_tracking_command:
  fixes cfg :: config and offsets :: "real \<times> real \<times> real" and goal :: trans
    and st :: node_state and teach_dataset :: "teach_frame list" and m :: int
  defines "g \<equiv> offset_goal offsets goal"
  defines "rho \<equiv> distance_of_trans g"
  defines "omega \<equiv> ALPHA_GAIN cfg * arctan2 (ty g) (tx g) + BETA_GAIN cfg * yaw_from_trans g"
  defines "st' \<equiv> Controller cfg teach_dataset m offsets st"
  assumes avail: "RelativeTFBetweenFrames teach_dataset m (m + TARGET_FRAME_LOOKAHEAD cfg) = Some goal"
  shows "published st' = published st @ [(drive_speed st', drive_steering_angle st')]
    \<and> drive_speed st' = min (max (RHO_GAIN cfg * rho) 0) (MAX_FORWARD_VELOCITY cfg)
    \<and> drive_speed st' \<le> MAX_FORWARD_VELOCITY cfg
    \<and> (MAX_FORWARD_VELOCITY cfg \<le> RHO_GAIN cfg * rho
         \<longrightarrow> drive_speed st' = MAX_FORWARD_VELOCITY cfg)
    \<and> (0 \<le> MAX_FORWARD_VELOCITY cfg \<longrightarrow> 0 \<le> drive_speed st')
    \<and> drive_steering_angle st'
        = min (max (if drive_speed st' \<noteq> 0
                    then arctan (omega * WHEEL_BASE cfg / drive_speed st') else 0)
                 (MIN_STEERING_ANGLE cfg)) (MAX_STEERING_ANGLE cfg)
    \<and> drive_steering_angle st' \<le> MAX_STEERING_ANGLE cfg
    \<and> (MIN_STEERING_ANGLE cfg \<le> MAX_STEERING_ANGLE cfg
         \<longrightarrow> MIN_STEERING_ANGLE cfg \<le> drive_steering_angle st')"
proof -
  let ?cl = "control_law cfg rho (arctan2 (ty g) (tx g)) (yaw_from_trans g)"
  have st': "st' = st\<lparr>drive_speed := fst ?cl, drive_steering_angle := snd ?cl,
                      published := published st @ [?cl]\<rparr>"
    unfolding st'_def rho_def g_def using avail by (rule Controller_available)
  have speed: "drive_speed st' = min (max (RHO_GAIN cfg * rho) 0) (MAX_FORWARD_VELOCITY cfg)"
    by (simp add: st' control_law_speed)
  have steer: "drive_steering_angle st'
        = min (max (if drive_speed st' \<noteq> 0
                    then arctan (omega * WHEEL_BASE cfg / drive_speed st') else 0)
                 (MIN_STEERING_ANGLE cfg)) (MAX_STEERING_ANGLE cfg)"
    unfolding omega_def by (simp add: st' control_law_steering)
  have pub: "published st' = published st @ [(drive_speed st', drive_steering_angle st')]"
    by (simp add: st')
  have "drive_speed st' \<le> MAX_FORWARD_VELOCITY cfg"
    "MAX_FORWARD_VELOCITY cfg \<le> RHO_GAIN cfg * rho
       \<longrightarrow> drive_speed st' = MAX_FORWARD_VELOCITY cfg"
    "0 \<le> MAX_FORWARD_VELOCITY cfg \<longrightarrow> 0 \<le> drive_speed st'"
    unfolding speed by simp_all
  moreover have "drive_steering_angle st' \<le> MAX_STEERING_ANGLE cfg"
    "MIN_STEERING_ANGLE cfg \<le> MAX_STEERING_ANGLE cfg
       \<longrightarrow> MIN_STEERING_ANGLE cfg \<le> drive_steering_angle st'"
    by (subst steer, simp)+
  ultimately show ?thesis
    using pub speed steer by blast
qed

theorem Controller_tracking_command_witness:
  "RelativeTFBetweenFrames straight_path 0 (0 + TARGET_FRAME_LOOKAHEAD default_config)
     = Some \<lparr>r00 = 1, r01 = 0, tx = 2, r10 = 0, r11 = 1, ty = 0\<rparr>
   \<and> 0 \<le> MAX_FORWARD_VELOCITY default_config
   \<and> MIN_STEERING_ANGLE default_config \<le> MAX_STEERING_ANGLE default_config
   \<and> MAX_FORWARD_VELOCITY default_config
       \<le> RHO_GAIN default_config
           * distance_of_trans
               (offset_goal (0, 0, 0) \<lparr>r00 = 1, r01 = 0, tx = 2, r10 = 0, r11 = 1, ty = 0\<rparr>)
   \<and> drive_speed (Controller default_config straight_path 0 (0, 0, 0) init_state)
       = MAX_FORWARD_VELOCITY default_config
   \<and> 0 \<le> drive_speed (Controller default_config straight_path 0 (0, 0, 0) init_state)
   \<and> MIN_STEERING_ANGLE default_config
       \<le> drive_steering_angle (Controller default_config straight_path 0 (0, 0, 0) init_state)
   \<and> drive_steering_angle (Controller default_config straight_path 0 (0, 0, 0) init_state)
       \<le> MAX_STEERING_ANGLE default_config"
proof -
  have h1: "RelativeTFBetweenFrames straight_path 0 (0 + TARGET_FRAME_LOOKAHEAD default_config)
     = Some \<lparr>r00 = 1, r01 = 0, tx = 2, r10 = 0, r11 = 1, ty = 0\<rparr>"
    by (rule straight_goal_0) (rule lookahead_examples)
  have h2: "0 \<le> MAX_FORWARD_VELOCITY default_config"
    by (simp add: default_config_def)
  have h3: "MIN_STEERING_ANGLE default_config \<le> MAX_STEERING_ANGLE default_config"
    by (simp add: default_config_def)
  have h4: "MAX_FORWARD_VELOCITY default_config
       \<le> RHO_GAIN default_config
           * distance_of_trans
               (offset_goal (0, 0, 0) \<lparr>r00 = 1, r01 = 0, tx = 2, r10 = 0, r11 = 1, ty = 0\<rparr>)"
    by (simp add: offset_goal_zero straight_goal_0_quantities default_config_def)
  from Controller_tracking_command [OF h1, where offsets = "(0, 0, 0)"
      and st = init_state] h1 h2 h3 h4
  show ?thesis by blast
qed

section \<open>Commands at the goal\<close>

lemma still_path_0_2:
  "RelativeTFBetweenFrames still_path 0 2
     = Some \<lparr>r00 = 1, r01 = 0, tx = 0, r10 = 0, r11 = 1, ty = 0\<rparr>"
  by (simp add: RelativeTFBetweenFrames_def py_slice_def slice_bound_def still_path_def
        still_row_def odom_pose_def pose_msg_to_trans_def append_trans_def)

lemma still_goal_0:
  "TARGET_FRAME_LOOKAHEAD cfg = 2 \<Longrightarrow>
   RelativeTFBetweenFrames still_path 0 (0 + TARGET_FRAME_LOOKAHEAD cfg)
     = Some \<lparr>r00 = 1, r01 = 0, tx = 0, r10 = 0, r11 = 1, ty = 0\<rparr>"
  by (simp add: still_path_0_2)

lemma identity_quantities:
  "distance_of_trans (offset_goal (0, 0, 0) \<lparr>r00 = 1, r01 = 0, tx = 0, r10 = 0, r11 = 1, ty = 0\<rparr>) = 0"
  "arctan2 (ty (offset_goal (0, 0, 0) \<lparr>r00 = 1, r01 = 0, tx = 0, r10 = 0, r11 = 1, ty = 0\<rparr>))
     (tx (offset_goal (0, 0, 0) \<lparr>r00 = 1, r01 = 0, tx = 0, r10 = 0, r11 = 1, ty = 0\<rparr>)) = 0"
  "yaw_from_trans (offset_goal (0, 0, 0) \<lparr>r00 = 1, r01 = 0, tx = 0, r10 = 0, r11 = 1, ty = 0\<rparr>) = 0"
  by (simp_all add: offset_goal_zero distance_of_trans_def arctan2_def yaw_from_trans_def)

lemma Controller_still_0:
  assumes "TARGET_FRAME_LOOKAHEAD cfg = 2"
  shows "Controller cfg still_path 0 (0, 0, 0) st
         = st\<lparr>drive_speed := fst (control_law cfg 0 0 0),
               drive_steering_angle := snd (control_law cfg 0 0 0),
               published := published st @ [control_law cfg 0 0 0]\<rparr>"
  using Controller_available [OF still_goal_0 [OF assms], of "(0, 0, 0)" st]
  by (simp only: identity_quantities)

lemma control_law_at_goal_examples:
  "control_law negative_speed_config 0 0 0 = (- (1 / 2), 0)"
  "control_law left_only_config 0 0 0 = (0, 1 / 10)"
  "control_law right_only_config 0 0 0 = (0, - (1 / 10))"
  by (simp_all add: control_law_def negative_speed_config_def left_only_config_def
        right_only_config_def default_config_def)

text \<open>
  C9, as the code has it. At the goal (\<open>rho = 0\<close>, \<open>alpha = 0\<close>, \<open>beta = 0\<close>) with a
  zero offset vector the controller publishes speed 0 and steering 0, provided 0 is
  within the limits: the maximum speed is at least 0 and 0 lies between the minimum
  and the maximum steering angle.
\<close>

theorem Controller_at_goal:
  assumes avail: "RelativeTFBetweenFrames teach_dataset m (m + TARGET_FRAME_LOOKAHEAD cfg) = Some goal"
    and rho: "distance_of_trans (offset_goal (0, 0, 0) goal) = 0"
    and alpha: "arctan2 (ty (offset_goal (0, 0, 0) goal)) (tx (offset_goal (0, 0, 0) goal)) = 0"
    and beta: "yaw_from_trans (offset_goal (0, 0, 0) goal) = 0"
    and speed_limit: "0 \<le> MAX_FORWARD_VELOCITY cfg"
    and steering_limits: "MIN_STEERING_ANGLE cfg \<le> 0" "0 \<le> MAX_STEERING_ANGLE cfg"
  shows "Controller cfg teach_dataset m (0, 0, 0) st
         = st\<lparr>drive_speed := 0, drive_steering_angle := 0,
               published := published st @ [(0, 0)]\<rparr>"
proof -
  have "control_law cfg 0 0 0 = (0, 0)"
    using speed_limit steering_limits by (simp add: control_law_def)
  then show ?thesis
    using Controller_available [OF avail, of "(0, 0, 0)" st]
    by (simp only: rho alpha beta fst_conv snd_conv)
qed

theorem Controller_at_goal_witness:
  "RelativeTFBetweenFrames still_path 0 (0 + TARGET_FRAME_LOOKAHEAD default_config)
     = Some \<lparr>r00 = 1, r01 = 0, tx = 0, r10 = 0, r11 = 1, ty = 0\<rparr>
   \<and> distance_of_trans (offset_goal (0, 0, 0) \<lparr>r00 = 1, r01 = 0, tx = 0, r10 = 0, r11 = 1, ty = 0\<rparr>) = 0
   \<and> 0 \<le> MAX_FORWARD_VELOCITY default_config
   \<and> MIN_STEERING_ANGLE default_config \<le> 0 \<and> 0 \<le> MAX_STEERING_ANGLE default_config
   \<and> Controller default_config still_path 0 (0, 0, 0) init_state
       = init_state\<lparr>published := [(0, 0)]\<rparr>"
proof -
  have h1: "RelativeTFBetweenFrames still_path 0 (0 + TARGET_FRAME_LOOKAHEAD default_config)
     = Some \<lparr>r00 = 1, r01 = 0, tx = 0, r10 = 0, r11 = 1, ty = 0\<rparr>"
    by (rule still_goal_0) (rule lookahead_examples)
  have h2: "0 \<le> MAX_FORWARD_VELOCITY default_config"
    "MIN_STEERING_ANGLE default_config \<le> 0" "0 \<le> MAX_STEERING_ANGLE default_config"
    by (simp_all add: default_config_def)
  have "Controller default_config still_path 0 (0, 0, 0) init_state
        = init_state\<lparr>drive_speed := 0, drive_steering_angle := 0,
               published := published init_state @ [(0, 0)]\<rparr>"
    using h1 identity_quantities h2 by (rule Controller_at_goal)
  then have "Controller default_config still_path 0 (0, 0, 0) init_state
       = init_state\<lparr>published := [(0, 0)]\<rparr>"
    by (simp add: init_state_def)
  with h1 h2 identity_quantities(1) show ?thesis by blast
qed

theorem Controller_at_goal_counterexample:
  "RelativeTFBetweenFrames still_path 0 (0 + TARGET_FRAME_LOOKAHEAD negative_speed_config)
     = Some \<lparr>r00 = 1, r01 = 0, tx = 0, r10 = 0, r11 = 1, ty = 0\<rparr>
   \<and> distance_of_trans (offset_goal (0, 0, 0) \<lparr>r00 = 1, r01 = 0, tx = 0, r10 = 0, r11 = 1, ty = 0\<rparr>) = 0
   \<and> arctan2 (ty (offset_goal (0, 0, 0) \<lparr>r00 = 1, r01 = 0, tx = 0, r10 = 0, r11 = 1, ty = 0\<rparr>))
        (tx (offset_goal (0, 0, 0) \<lparr>r00 = 1, r01 = 0, tx = 0, r10 = 0, r11 = 1, ty = 0\<rparr>)) = 0
   \<and> yaw_from_trans (offset_goal (0, 0, 0) \<lparr>r00 = 1, r01 = 0, tx = 0, r10 = 0, r11 = 1, ty = 0\<rparr>) = 0
   \<and> drive_speed (Controller negative_speed_config still_path 0 (0, 0, 0) init_state) = - (1 / 2)
   \<and> RelativeTFBetweenFrames still_path 0 (0 + TARGET_FRAME_LOOKAHEAD left_only_config)
     = Some \<lparr>r00 = 1, r01 = 0, tx = 0, r10 = 0, r11 = 1, ty = 0\<rparr>
   \<and> drive_steering_angle (Controller left_only_config still_path 0 (0, 0, 0) init_state) = 1 / 10
   \<and> RelativeTFBetweenFrames still_path 0 (0 + TARGET_FRAME_LOOKAHEAD right_only_config)
     = Some \<lparr>r00 = 1, r01 = 0, tx = 0, r10 = 0, r11 = 1, ty = 0\<rparr>
   \<and> drive_steering_angle (Controller right_only_config still_path 0 (0, 0, 0) init_state)
       = - (1 / 10)"
  by (simp add: still_path_0_2 lookahead_examples Controller_still_0 identity_quantities
        control_law_at_goal_examples)

section \<open>The lateral offset\<close>

text \<open>
  C7, as the code has it. The image centre is taken with floor division: the offset
  vector is \<open>(0, scale_y * (comparison_width div 2 - patch_center.x), 0)\<close>, with the
  patch centre at the match location plus half the patch size. With a positive
  \<open>scale_y\<close> the lateral offset is strictly positive when the patch centre is strictly
  left of column \<open>comparison_width div 2\<close> and strictly negative when it is strictly
  right of it. For an even width that column is \<open>comparison_width / 2\<close>.
\<close>

theorem estimate_offsets_floor_centre:
  "patch_center loc shape
     = (real_of_int (fst loc) + real_of_int (snd shape) / 2,
        real_of_int (snd loc) + real_of_int (fst shape) / 2)
   \<and> estimate_offsets cfg (patch_center loc shape)
     = (0,
        Y_OFFSET_SCALE_FACTOR cfg
          * (real_of_int (fst (IMAGE_COMPARISON_SIZE cfg) div 2) - fst (patch_center loc shape)),
        0)
   \<and> (0 < Y_OFFSET_SCALE_FACTOR cfg
        \<and> fst (patch_center loc shape) < real_of_int (fst (IMAGE_COMPARISON_SIZE cfg) div 2)
       \<longrightarrow> 0 < fst (snd (estimate_offsets cfg (patch_center loc shape))))
   \<and> (0 < Y_OFFSET_SCALE_FACTOR cfg
        \<and> real_of_int (fst (IMAGE_COMPARISON_SIZE cfg) div 2) < fst (patch_center loc' shape)
       \<longrightarrow> fst (snd (estimate_offsets cfg (patch_center loc' shape))) < 0)
   \<and> (even (fst (IMAGE_COMPARISON_SIZE cfg))
       \<longrightarrow> real_of_int (fst (IMAGE_COMPARISON_SIZE cfg) div 2)
           = real_of_int (fst (IMAGE_COMPARISON_SIZE cfg)) / 2)"
proof (intro conjI impI)
  show "patch_center loc shape
     = (real_of_int (fst loc) + real_of_int (snd shape) / 2,
        real_of_int (snd loc) + real_of_int (fst shape) / 2)"
    by (simp add: patch_center_def)
  show "estimate_offsets cfg (patch_center loc shape)
     = (0,
        Y_OFFSET_SCALE_FACTOR cfg
          * (real_of_int (fst (IMAGE_COMPARISON_SIZE cfg) div 2) - fst (patch_center loc shape)),
        0)"
    by (simp add: estimate_offsets_def)
next
  assume "0 < Y_OFFSET_SCALE_FACTOR cfg
        \<and> fst (patch_center loc shape) < real_of_int (fst (IMAGE_COMPARISON_SIZE cfg) div 2)"
  then show "0 < fst (snd (estimate_offsets cfg (patch_center loc shape)))"
    by (simp add: estimate_offsets_def)
next
  assume "0 < Y_OFFSET_SCALE_FACTOR cfg
        \<and> real_of_int (fst (IMAGE_COMPARISON_SIZE cfg) div 2) < fst (patch_center loc' shape)"
  then show "fst (snd (estimate_offsets cfg (patch_center loc' shape))) < 0"
    by (simp add: estimate_offsets_def mult_less_0_iff)
next
  assume "even (fst (IMAGE_COMPARISON_SIZE cfg))"
  then show "real_of_int (fst (IMAGE_COMPARISON_SIZE cfg) div 2)
           = real_of_int (fst (IMAGE_COMPARISON_SIZE cfg)) / 2"
    using real_of_int_div [of 2 "fst (IMAGE_COMPARISON_SIZE cfg)"] by simp
qed

lemma patch_center_examples:
  "patch_center (2, 10) (28, 38) = (21, 24)"
  "patch_center (24, 10) (28, 38) = (43, 24)"
  "patch_center (13, 10) (28, 38) = (32, 24)"
  by (simp_all add: patch_center_def)

theorem estimate_offsets_floor_centre_witness:
  "0 < Y_OFFSET_SCALE_FACTOR default_config
   \<and> fst (patch_center (2, 10) (28, 38))
       < real_of_int (fst (IMAGE_COMPARISON_SIZE default_config) div 2)
   \<and> real_of_int (fst (IMAGE_COMPARISON_SIZE default_config) div 2)
       < fst (patch_center (24, 10) (28, 38))
   \<and> even (fst (IMAGE_COMPARISON_SIZE default_config))
   \<and> estimate_offsets default_config (patch_center (2, 10) (28, 38)) = (0, 22 / 100, 0)
   \<and> 0 < fst (snd (estimate_offsets default_config (patch_center (2, 10) (28, 38))))
   \<and> fst (snd (estimate_offsets default_config (patch_center (24, 10) (28, 38)))) < 0"
  using estimate_offsets_floor_centre [of "(2, 10)" "(28, 38)" default_config "(24, 10)"]
  by (simp add: patch_center_examples) (simp add: default_config_def)

theorem estimate_offsets_floor_centre_counterexample:
  "fst (IMAGE_COMPARISON_SIZE odd_width_config) = 65
   \<and> 0 < Y_OFFSET_SCALE_FACTOR odd_width_config
   \<and> fst (patch_center (13, 10) (28, 38)) = 32
   \<and> fst (patch_center (13, 10) (28, 38))
       < real_of_int (fst (IMAGE_COMPARISON_SIZE odd_width_config)) / 2
   \<and> estimate_offsets odd_width_config (patch_center (13, 10) (28, 38)) = (0, 0, 0)
   \<and> Y_OFFSET_SCALE_FACTOR odd_width_config
       * (real_of_int (fst (IMAGE_COMPARISON_SIZE odd_width_config)) / 2
          - fst (patch_center (13, 10) (28, 38))) = 1 / 100
   \<and> \<not> 0 < fst (snd (estimate_offsets odd_width_config (patch_center (13, 10) (28, 38))))"
  by (simp add: patch_center_examples estimate_offsets_def)
    (simp add: odd_width_config_def default_config_def)

section \<open>The end of the path\<close>

lemma control_law_steers_right:
  assumes "0 < RHO_GAIN cfg * rho" "0 < MAX_FORWARD_VELOCITY cfg"
    "(ALPHA_GAIN cfg * alpha + BETA_GAIN cfg * beta) * WHEEL_BASE cfg < 0"
    "MIN_STEERING_ANGLE cfg < 0"
  shows "snd (control_law cfg rho alpha beta) < 0"
proof -
  let ?v = "fst (control_law cfg rho alpha beta)"
  let ?raw = "arctan ((ALPHA_GAIN cfg * alpha + BETA_GAIN cfg * beta) * WHEEL_BASE cfg / ?v)"
  have v: "0 < ?v"
    using assms(1,2) by (simp add: control_law_speed)
  then have "(ALPHA_GAIN cfg * alpha + BETA_GAIN cfg * beta) * WHEEL_BASE cfg / ?v < 0"
    using assms(3) by (simp add: divide_neg_pos)
  then have "?raw < 0"
    by (simp only: arctan_less_zero_iff)
  then have "max ?raw (MIN_STEERING_ANGLE cfg) < 0"
    using assms(4) by simp
  then have "min (max ?raw (MIN_STEERING_ANGLE cfg)) (MAX_STEERING_ANGLE cfg) < 0"
    by (simp add: min_less_iff_disj)
  moreover have "snd (control_law cfg rho alpha beta)
      = min (max ?raw (MIN_STEERING_ANGLE cfg)) (MAX_STEERING_ANGLE cfg)"
    using v by (simp add: control_law_steering)
  ultimately show ?thesis by simp
qed

lemma turn_command_right: "snd turn_command < 0"
  unfolding turn_command_def
  by (rule control_law_steers_right) (simp_all add: default_config_def power2_eq_square)

lemma scan_frame_at_3:
  "scan (match_template (frame_at 3)) [0, 1, 2, 3] (scan_init 0)
   = \<lparr>best_score = Some (9 / 10), best_max_location = Some (2, 10),
      max_location = Some (2, 10), matched_teach_frame_id = 3\<rparr>"
  by (simp add: frame_at_def scan_step_def scan_init_def)

lemma scan_frame_at_4:
  "scan (match_template (frame_at 4)) [0, 1, 2, 3, 4] (scan_init 3)
   = \<lparr>best_score = Some (9 / 10), best_max_location = Some (2, 10),
      max_location = Some (2, 10), matched_teach_frame_id = 4\<rparr>"
  by (simp add: frame_at_def scan_step_def scan_init_def)

lemma patch_shape_frame_at: "patch_shape (frame_at k) = (28, 38)"
  by (simp add: frame_at_def)

lemma offsets_default_21: "estimate_offsets default_config (21, 24) = (0, 22 / 100, 0)"
  by (simp add: estimate_offsets_def default_config_def)

lemma ImageMatching_frame_at_3:
  assumes "current_matched_teach_frame_id st = 0"
  shows "ImageMatching default_config straight_path (frame_at 3) st
   = Inr (st\<lparr>current_matched_teach_frame_id := 3, patch_center_location := (21, 24)\<rparr>,
          3, (0, 22 / 100, 0))"
  unfolding ImageMatching_def assms window_straight_0 scan_frame_at_3
  by (simp add: patch_shape_frame_at patch_center_examples offsets_default_21)

lemma ImageMatching_frame_at_4:
  assumes "current_matched_teach_frame_id st = 3"
  shows "ImageMatching default_config straight_path (frame_at 4) st
   = Inr (st\<lparr>current_matched_teach_frame_id := 4, patch_center_location := (21, 24)\<rparr>,
          4, (0, 22 / 100, 0))"
  unfolding ImageMatching_def assms window_straight_3 scan_frame_at_4
  by (simp add: patch_shape_frame_at patch_center_examples offsets_default_21)

lemma offset_goal_right:
  "offset_goal (0, 22 / 100, 0) \<lparr>r00 = 1, r01 = 0, tx = 1, r10 = 0, r11 = 1, ty = 0\<rparr>
   = \<lparr>r00 = 1, r01 = 0, tx = 1, r10 = 0, r11 = 1, ty = - (22 / 100)\<rparr>"
  by (simp add: offset_goal_def diff_trans_def invert_trans_def append_trans_def
        pose_msg_to_trans_def)

lemma right_goal_quantities:
  "distance_of_trans \<lparr>r00 = 1, r01 = 0, tx = 1, r10 = 0, r11 = 1, ty = - (22 / 100)\<rparr>
     = sqrt (1\<^sup>2 + (- (22 / 100))\<^sup>2)"
  "arctan2 (ty \<lparr>r00 = 1, r01 = 0, tx = 1, r10 = 0, r11 = 1, ty = - (22 / 100)\<rparr>)
     (tx \<lparr>r00 = 1, r01 = 0, tx = 1, r10 = 0, r11 = 1, ty = - (22 / 100)\<rparr>)
     = arctan (- (22 / 100) / 1)"
  "yaw_from_trans \<lparr>r00 = 1, r01 = 0, tx = 1, r10 = 0, r11 = 1, ty = - (22 / 100)\<rparr> = 0"
  by (simp_all add: distance_of_trans_def arctan2_def yaw_from_trans_def)

lemma Controller_straight_3:
  "Controller default_config straight_path 3 (0, 22 / 100, 0) st
   = st\<lparr>drive_speed := fst turn_command, drive_steering_angle := snd turn_command,
         published := published st @ [turn_command]\<rparr>"
proof -
  have "RelativeTFBetweenFrames straight_path 3 (3 + TARGET_FRAME_LOOKAHEAD default_config)
        = Some \<lparr>r00 = 1, r01 = 0, tx = 1, r10 = 0, r11 = 1, ty = 0\<rparr>"
    by (simp add: lookahead_examples straight_path_3_5)
  from Controller_available [OF this, of "(0, 22 / 100, 0)" st] show ?thesis
    by (simp only: offset_goal_right right_goal_quantities turn_command_def)
qed

lemma Controller_straight_4:
  "Controller default_config straight_path 4 offsets st
   = st\<lparr>drive_speed := 0, published := published st @ [(0, drive_steering_angle st)]\<rparr>"
proof -
  have "RelativeTFBetweenFrames straight_path 4 (4 + TARGET_FRAME_LOOKAHEAD default_config) = None"
    by (simp add: lookahead_examples straight_path_4_6)
  then show ?thesis by (rule Controller_unavailable)
qed

lemma Image_Callback_frame_at_3:
  assumes "current_matched_teach_frame_id st = 0"
  shows "Image_Callback default_config straight_path (frame_at 3) st
   = Inr (st\<lparr>current_matched_teach_frame_id := 3, patch_center_location := (21, 24),
             drive_speed := fst turn_command, drive_steering_angle := snd turn_command,
             published := published st @ [turn_command]\<rparr>)"
  unfolding Image_Callback_def ImageMatching_frame_at_3 [OF assms]
  by (simp only: sum.case prod.case Controller_straight_3) simp

lemma Image_Callback_frame_at_4:
  assumes "current_matched_teach_frame_id st = 3"
  shows "Image_Callback default_config straight_path (frame_at 4) st
   = Inr (st\<lparr>current_matched_teach_frame_id := 4, patch_center_location := (21, 24),
             drive_speed := 0,
             published := published st @ [(0, drive_steering_angle st)]\<rparr>)"
  unfolding Image_Callback_def ImageMatching_frame_at_4 [OF assms]
  by (simp only: sum.case prod.case Controller_straight_4) simp

lemma run_to_the_end:
  "run default_config straight_path [frame_at 3, frame_at 4] init_state
   = Inr \<lparr>current_matched_teach_frame_id = 4, patch_center_location = (21, 24),
          drive_speed = 0, drive_steering_angle = snd turn_command,
          published = [turn_command, (0, snd turn_command)]\<rparr>"
proof -
  let ?st1 = "init_state\<lparr>current_matched_teach_frame_id := 3, patch_center_location := (21, 24),
             drive_speed := fst turn_command, drive_steering_angle := snd turn_command,
             published := published init_state @ [turn_command]\<rparr>"
  have c1: "current_matched_teach_frame_id ?st1 = 3" by simp
  have "run default_config straight_path [frame_at 3, frame_at 4] init_state
        = run default_config straight_path [frame_at 4] ?st1"
    by (simp only: run.simps Image_Callback_frame_at_3 [OF cursor_init_state] sum.case)
  also have "\<dots> = Inr (?st1\<lparr>current_matched_teach_frame_id := 4,
             patch_center_location := (21, 24), drive_speed := 0,
             published := published ?st1 @ [(0, drive_steering_angle ?st1)]\<rparr>)"
    by (simp only: run.simps Image_Callback_frame_at_4 [OF c1] sum.case)
  also have "\<dots> = Inr \<lparr>current_matched_teach_frame_id = 4, patch_center_location = (21, 24),
          drive_speed = 0, drive_steering_angle = snd turn_command,
          published = [turn_command, (0, snd turn_command)]\<rparr>"
    by (simp add: init_state_def)
  finally show ?thesis .
qed


text \<open>
  C1, as the code has it. When the look-ahead transform is unavailable the controller
  sets the speed of the command message to 0, leaves its steering angle as it is, and
  publishes it: the published command is speed 0 with the steering angle the message
  held, which after any earlier call is the angle of the last published command, and
  is 0 in the initial state. Another frame with an unavailable goal publishes the same
  command again and changes nothing else.
\<close>

theorem Controller_end_of_path:
  assumes "RelativeTFBetweenFrames teach_dataset m (m + TARGET_FRAME_LOOKAHEAD cfg) = None"
    and "RelativeTFBetweenFrames teach_dataset m' (m' + TARGET_FRAME_LOOKAHEAD cfg) = None"
  shows "Controller cfg teach_dataset m offsets st
         = st\<lparr>drive_speed := 0, published := published st @ [(0, drive_steering_angle st)]\<rparr>
    \<and> Controller cfg teach_dataset m' offsets' (Controller cfg teach_dataset m offsets st)
       = (Controller cfg teach_dataset m offsets st)
           \<lparr>published := published (Controller cfg teach_dataset m offsets st)
                           @ [(0, drive_steering_angle st)]\<rparr>
    \<and> last (published (Controller cfg teach_dataset m0 offsets0 st0))
       = (drive_speed (Controller cfg teach_dataset m0 offsets0 st0),
          drive_steering_angle (Controller cfg teach_dataset m0 offsets0 st0))
    \<and> drive_steering_angle init_state = 0"
proof (intro conjI)
  show first: "Controller cfg teach_dataset m offsets st
         = st\<lparr>drive_speed := 0, published := published st @ [(0, drive_steering_angle st)]\<rparr>"
    using assms(1) by (rule Controller_unavailable)
  show "Controller cfg teach_dataset m' offsets' (Controller cfg teach_dataset m offsets st)
       = (Controller cfg teach_dataset m offsets st)
           \<lparr>published := published (Controller cfg teach_dataset m offsets st)
                           @ [(0, drive_steering_angle st)]\<rparr>"
    by (simp add: Controller_unavailable [OF assms(2)] first)
  show "last (published (Controller cfg teach_dataset m0 offsets0 st0))
       = (drive_speed (Controller cfg teach_dataset m0 offsets0 st0),
          drive_steering_angle (Controller cfg teach_dataset m0 offsets0 st0))"
    by (simp add: Controller_def publish_def Let_def case_prod_unfold split: option.splits)
  show "drive_steering_angle init_state = 0"
    by (simp add: init_state_def)
qed

theorem Controller_end_of_path_witness:
  "RelativeTFBetweenFrames straight_path 4 (4 + TARGET_FRAME_LOOKAHEAD default_config) = None
   \<and> Controller default_config straight_path 4 (0, 0, 0) init_state
       = init_state\<lparr>published := [(0, 0)]\<rparr>
   \<and> Controller default_config straight_path 4 (0, 0, 0)
         (Controller default_config straight_path 4 (0, 0, 0) init_state)
       = init_state\<lparr>published := [(0, 0), (0, 0)]\<rparr>"
proof -
  have h: "RelativeTFBetweenFrames straight_path 4 (4 + TARGET_FRAME_LOOKAHEAD default_config) = None"
    by (simp add: lookahead_examples straight_path_4_6)
  from Controller_end_of_path [OF h h, where offsets = "(0, 0, 0)" and offsets' = "(0, 0, 0)"
      and st = init_state]
  have "Controller default_config straight_path 4 (0, 0, 0) init_state
         = init_state\<lparr>drive_speed := 0,
             published := published init_state @ [(0, drive_steering_angle init_state)]\<rparr>"
    and "Controller default_config straight_path 4 (0, 0, 0)
           (Controller default_config straight_path 4 (0, 0, 0) init_state)
       = (Controller default_config straight_path 4 (0, 0, 0) init_state)
           \<lparr>published := published (Controller default_config straight_path 4 (0, 0, 0) init_state)
                           @ [(0, drive_steering_angle init_state)]\<rparr>"
    by blast+
  then have "Controller default_config straight_path 4 (0, 0, 0) init_state
       = init_state\<lparr>published := [(0, 0)]\<rparr>"
    and "Controller default_config straight_path 4 (0, 0, 0)
         (Controller default_config straight_path 4 (0, 0, 0) init_state)
       = init_state\<lparr>published := [(0, 0), (0, 0)]\<rparr>"
    by (simp_all add: init_state_def)
  with h show ?thesis by blast
qed

theorem Controller_end_of_path_counterexample:
  "run default_config straight_path [frame_at 3, frame_at 4] init_state
   = Inr \<lparr>current_matched_teach_frame_id = 4, patch_center_location = (21, 24),
          drive_speed = 0, drive_steering_angle = snd turn_command,
          published = [turn_command, (0, snd turn_command)]\<rparr>
   \<and> RelativeTFBetweenFrames straight_path 4 (4 + TARGET_FRAME_LOOKAHEAD default_config) = None
   \<and> snd turn_command \<noteq> 0"
proof (intro conjI)
  show "run default_config straight_path [frame_at 3, frame_at 4] init_state
   = Inr \<lparr>current_matched_teach_frame_id = 4, patch_center_location = (21, 24),
          drive_speed = 0, drive_steering_angle = snd turn_command,
          published = [turn_command, (0, snd turn_command)]\<rparr>"
    by (rule run_to_the_end)
  show "RelativeTFBetweenFrames straight_path 4 (4 + TARGET_FRAME_LOOKAHEAD default_config) = None"
    by (simp add: lookahead_examples straight_path_4_6)
  show "snd turn_command \<noteq> 0"
    using turn_command_right by simp
qed

end
